theory Spec2Isabelle
  imports Complex_Main
begin

section \<open>Data model\<close>

text \<open>
  One row of the processed dataset, with the properties the three charts read
  (\<open>Name\<close>, \<open>Type_1\<close>, \<open>Type_2\<close>, \<open>Total\<close> and the six stat dimensions).
  JavaScript numbers are modelled as exact reals; a property that is \<open>undefined\<close> or
  for which \<open>isNaN\<close> holds is \<open>None\<close>, so \<open>!isNaN(v)\<close> is \<open>v \<noteq> None\<close>.
\<close>

record pokemon =
  Name :: string
  Type_1 :: string
  Type_2 :: string
  Total :: "real option"
  HP :: "real option"
  Attack :: "real option"
  Defense :: "real option"
  Sp_Atk :: "real option"
  Sp_Def :: "real option"
  Speed :: "real option"

section \<open>Ridgeline plot: kernel density estimation\<close>

text \<open>
  \<open>d3.mean(V, f)\<close> and \<open>d3.max(V, f)\<close> of the d3 library, on the already mapped values:
  the mean of the numbers (\<open>undefined\<close> for none), and a left-to-right scan keeping
  the first largest number, skipping \<open>undefined\<close> entries (\<open>undefined\<close> for none).
\<close>

definition d3_mean :: "real list \<Rightarrow> real option" where
  "d3_mean vs = (if length vs = 0 then None else Some (sum_list vs / real (length vs)))"

definition d3_max_step :: "real option \<Rightarrow> real option \<Rightarrow> real option" where
  "d3_max_step mx v =
     (case v of
        None \<Rightarrow> mx
      | Some y \<Rightarrow> (case mx of None \<Rightarrow> Some y | Some m \<Rightarrow> if m < y then Some y else Some m))"

definition d3_max :: "real option list \<Rightarrow> real option" where
  "d3_max vs = foldl d3_max_step None vs"

text \<open>
  \<open>kernelEpanechnikov(k)\<close>: \<open>Math.abs(v /= k) <= 1 ? 0.75 * (1 - v * v) / k : 0\<close>.
  The argument is first divided by the bandwidth and the quotient is what is squared.
\<close>

definition kernelEpanechnikov :: "real \<Rightarrow> real \<Rightarrow> real" where
  "kernelEpanechnikov k v =
     (let v' = v / k in if \<bar>v'\<bar> \<le> 1 then 0.75 * (1 - v' * v') / k else 0)"

text \<open>\<open>kernelDensityEstimator(kernel, X)(V) = X.map(x => [x, d3.mean(V, v => kernel(x - v))])\<close>.\<close>

definition kernelDensityEstimator ::
  "(real \<Rightarrow> real) \<Rightarrow> real list \<Rightarrow> real list \<Rightarrow> (real \<times> real option) list" where
  "kernelDensityEstimator kern X V = map (\<lambda>x. (x, d3_mean (map (\<lambda>v. kern (x - v)) V))) X"

text \<open>
  \<open>kde = kernelDensityEstimator(kernelEpanechnikov(20), xScale.ticks(80))\<close>; the tick
  list of the x scale is the evaluation grid \<open>X\<close>, a parameter here.
\<close>

definition kde :: "real list \<Rightarrow> real list \<Rightarrow> (real \<times> real option) list" where
  "kde X = kernelDensityEstimator (kernelEpanechnikov 20) X"

text \<open>
  The density of one generation, as \<open>updateToGeneration\<close> and the ridge click handler
  compute it: \<open>genTotals\<close> keeps the \<open>Total\<close> values that are numbers, and the
  estimator runs only on two or more of them; otherwise \<open>density\<close> stays \<open>[]\<close>.
\<close>

definition genTotals :: "pokemon list \<Rightarrow> real list" where
  "genTotals vals = List.map_filter (\<lambda>val. val) (map Total vals)"

definition density :: "real list \<Rightarrow> pokemon list \<Rightarrow> (real \<times> real option) list" where
  "density X vals = (if 2 \<le> length (genTotals vals) then kde X (genTotals vals) else [])"

text \<open>\<open>maxDensity = d3.max(density, p => p[1])\<close> and the y-domain top derived from it.\<close>

definition maxDensity :: "real list \<Rightarrow> pokemon list \<Rightarrow> real option" where
  "maxDensity X vals = d3_max (map snd (density X vals))"

definition yDomainMax :: "real list \<Rightarrow> pokemon list \<Rightarrow> real" where
  "yDomainMax X vals =
     (case maxDensity X vals of
        None \<Rightarrow> 1 / 1000000
      | Some m \<Rightarrow> if m \<noteq> 0 \<and> m > 0 then m else 1 / 1000000)"


section \<open>Stacked bar chart: aggregation\<close>

text \<open>
  \<open>[...new Set(xs)]\<close>: the distinct elements in the order of their first occurrence.
\<close>

definition js_set_of :: "'a list \<Rightarrow> 'a list" where
  "js_set_of xs = foldl (\<lambda>s x. if x \<in> set s then s else s @ [x]) [] xs"

text \<open>
  \<open>Array.prototype.sort(cmp)\<close> is a stable sort: \<open>a\<close> stays before \<open>b\<close> unless the
  comparator puts \<open>b\<close> first. It is written as the insertion sort that inserts
  from the right, each element going before the first one it does not come after.
\<close>

fun js_insert :: "('a \<Rightarrow> 'a \<Rightarrow> int) \<Rightarrow> 'a \<Rightarrow> 'a list \<Rightarrow> 'a list" where
  "js_insert cmp x [] = [x]"
| "js_insert cmp x (y # ys) = (if cmp x y \<le> 0 then x # y # ys else y # js_insert cmp x ys)"

definition js_sort :: "('a \<Rightarrow> 'a \<Rightarrow> int) \<Rightarrow> 'a list \<Rightarrow> 'a list" where
  "js_sort cmp xs = foldr (js_insert cmp) xs []"

text \<open>
  \<open>allSecondaryTypes\<close>: the distinct \<open>Type_2\<close> values, sorted with \<open>"None"\<close> first and
  \<open>a.localeCompare(b)\<close> otherwise. The collation \<open>localeCompare\<close> belongs to the
  runtime and is a parameter.
\<close>

definition secondaryCompare :: "(string \<Rightarrow> string \<Rightarrow> int) \<Rightarrow> string \<Rightarrow> string \<Rightarrow> int" where
  "secondaryCompare localeCompare a b =
     (if a = ''None'' then - 1 else if b = ''None'' then 1 else localeCompare a b)"

definition allSecondaryTypes :: "(string \<Rightarrow> string \<Rightarrow> int) \<Rightarrow> pokemon list \<Rightarrow> string list" where
  "allSecondaryTypes localeCompare data =
     js_sort (secondaryCompare localeCompare) (js_set_of (map Type_2 data))"

text \<open>
  \<open>d3.group\<close> / \<open>d3.rollup\<close> collect the rows of each key in a map that keeps the keys
  in the order of their first occurrence and the rows of a key in input order.
\<close>

fun group_add :: "string \<Rightarrow> pokemon \<Rightarrow> (string \<times> pokemon list) list \<Rightarrow> (string \<times> pokemon list) list" where
  "group_add k d [] = [(k, [d])]"
| "group_add k d ((k', ds) # gs) =
     (if k' = k then (k', ds @ [d]) # gs else (k', ds) # group_add k d gs)"

definition d3_group :: "pokemon list \<Rightarrow> (pokemon \<Rightarrow> string) \<Rightarrow> (string \<times> pokemon list) list" where
  "d3_group data keyof = foldl (\<lambda>gs d. group_add (keyof d) d gs) [] data"

text \<open>
  The reducer of the rollup. \<open>counts\<close> is one object: a property per secondary type,
  started at 0 by \<open>Object.fromEntries\<close>, incremented per leaf whose \<open>Type_2\<close> is a
  property of it, and then the property \<open>total\<close>, assigned last in the same object.
  Inside \<open>createStackedBarChart\<close> every leaf's \<open>Type_2\<close> is among the secondary types
  passed in, so the warning branch (which leaves \<open>counts\<close> as it is) is never taken.
\<close>

definition count_leaf :: "pokemon \<Rightarrow> (string \<rightharpoonup> nat) \<Rightarrow> (string \<rightharpoonup> nat)" where
  "count_leaf leaf counts =
     (case counts (Type_2 leaf) of
        Some n \<Rightarrow> counts(Type_2 leaf \<mapsto> n + 1)
      | None \<Rightarrow> counts)"

definition reduce_leaves :: "string list \<Rightarrow> pokemon list \<Rightarrow> (string \<rightharpoonup> nat)" where
  "reduce_leaves secTypes leaves =
     (let counts = map_of (map (\<lambda>secType. (secType, 0)) secTypes);
          counts = fold count_leaf leaves counts
      in counts(''total'' \<mapsto> length leaves))"

definition countsByTypeFull ::
  "(string \<Rightarrow> string \<Rightarrow> int) \<Rightarrow> pokemon list \<Rightarrow> (string \<times> (string \<rightharpoonup> nat)) list" where
  "countsByTypeFull localeCompare data =
     map (\<lambda>(k, leaves). (k, reduce_leaves (allSecondaryTypes localeCompare data) leaves))
       (d3_group data Type_1)"

text \<open>Reading \<open>a.total\<close> of a counts object; the reducer always sets it.\<close>

definition total_of :: "(string \<rightharpoonup> nat) \<Rightarrow> nat" where
  "total_of counts = (case counts ''total'' of Some n \<Rightarrow> n | None \<Rightarrow> 0)"

definition sortedEntries ::
  "(string \<Rightarrow> string \<Rightarrow> int) \<Rightarrow> pokemon list \<Rightarrow> (string \<times> (string \<rightharpoonup> nat)) list" where
  "sortedEntries localeCompare data =
     js_sort (\<lambda>(_, a) (_, b). int (total_of b) - int (total_of a))
       (countsByTypeFull localeCompare data)"

text \<open>
  A flattened element \<open>{ primaryType, ...counts }\<close>. The spread comes second, so a
  property \<open>primaryType\<close> of \<open>counts\<close> (a secondary type of that name) replaces the
  primary type by its count; the field is therefore a string or a number.
  \<open>d[secType]\<close> and \<open>d.total\<close> read \<open>counts\<close>.
\<close>

datatype jsval = Str string | Num nat

record group =
  primaryType :: jsval
  counts :: "string \<rightharpoonup> nat"

definition flatten :: "string \<times> (string \<rightharpoonup> nat) \<Rightarrow> group" where
  "flatten e =
     \<lparr>primaryType = (case snd e ''primaryType'' of Some n \<Rightarrow> Num n | None \<Rightarrow> Str (fst e)),
      counts = snd e\<rparr>"

definition baseSortedCountsArray :: "(string \<Rightarrow> string \<Rightarrow> int) \<Rightarrow> pokemon list \<Rightarrow> group list" where
  "baseSortedCountsArray localeCompare data = map flatten (sortedEntries localeCompare data)"

definition group_total :: "group \<Rightarrow> nat" where
  "group_total d = total_of (counts d)"

text \<open>The count a group shows for one secondary type: \<open>d[secType]\<close>.\<close>

definition count_at :: "group \<Rightarrow> string \<Rightarrow> nat" where
  "count_at d secType = (case counts d secType of Some n \<Rightarrow> n | None \<Rightarrow> 0)"

text \<open>The sum of the counts a counts object holds for a list of secondary types.\<close>

definition counted :: "(string \<rightharpoonup> nat) \<Rightarrow> string list \<Rightarrow> nat" where
  "counted c S = sum_list (map (\<lambda>t. case c t of Some n \<Rightarrow> n | None \<Rightarrow> 0) S)"

text \<open>A dataset row with the given name, types and \<open>Total\<close>, for concrete evaluations.\<close>

definition row :: "string \<Rightarrow> string \<Rightarrow> string \<Rightarrow> real option \<Rightarrow> pokemon" where
  "row n t1 t2 tot =
     \<lparr>Name = n, Type_1 = t1, Type_2 = t2, Total = tot, HP = Some 45, Attack = Some 49,
      Defense = Some 49, Sp_Atk = Some 65, Sp_Def = Some 65, Speed = Some 45\<rparr>"

section \<open>Stacked bar chart: views and drill-down\<close>

text \<open>
  The two filter arguments of \<open>createStackedBarChart\<close> are \<open>null\<close> (\<open>None\<close>) or a
  value. The code tests them by truthiness, so the empty string and the number 0
  count as absent, like \<open>null\<close>.
\<close>

fun truthy :: "jsval option \<Rightarrow> bool" where
  "truthy None = False"
| "truthy (Some (Str s)) = (s \<noteq> [])"
| "truthy (Some (Num n)) = (n \<noteq> 0)"

text \<open>
  \<open>d3.ascending\<close> on two names: the language's \<open><\<close> on strings, which compares them
  unit by unit from the left, a proper prefix coming first. Names are byte strings
  here, which is the same order for names in ASCII.
\<close>

fun string_less :: "string \<Rightarrow> string \<Rightarrow> bool" where
  "string_less [] [] = False"
| "string_less [] (y # ys) = True"
| "string_less (x # xs) [] = False"
| "string_less (x # xs) (y # ys) =
     ((of_char x :: nat) < of_char y \<or> (x = y \<and> string_less xs ys))"

definition d3_ascending :: "string \<Rightarrow> string \<Rightarrow> int" where
  "d3_ascending a b = (if string_less a b then - 1 else if string_less b a then 1 else 0)"

text \<open>
  What one call of \<open>createStackedBarChart\<close> leaves on the page, as far as navigation
  is concerned: the two links, the calls of \<open>console.warn\<close>, the final value of
  \<open>effectiveFilterPrimaryType\<close>, and the view drawn (the list view shows the matching
  rows sorted by name). The container is taken to exist
  and to have a drawing area.
\<close>

datatype body =
    PokemonList "pokemon list"
  | NoPokemonFound
  | NoData
  | NoValidCounts
  | StackedBars "group list"

record chart =
  showAllLink :: bool
  backLink :: bool
  warned :: "jsval option list"
  effectiveFilterPrimaryType :: "jsval option"
  body :: body

definition createStackedBarChart ::
  "(string \<Rightarrow> string \<Rightarrow> int) \<Rightarrow> pokemon list \<Rightarrow> jsval option \<Rightarrow> jsval option \<Rightarrow> chart" where
  "createStackedBarChart localeCompare data activeFilterPrimaryType activeFilterSecondaryType =
     (if truthy activeFilterPrimaryType \<and> truthy activeFilterSecondaryType then
        (let specificPokemon =
               filter (\<lambda>p. Some (Str (Type_1 p)) = activeFilterPrimaryType
                          \<and> Some (Str (Type_2 p)) = activeFilterSecondaryType) data
         in \<lparr>showAllLink = truthy activeFilterPrimaryType,
             backLink = True,
             warned = [],
             effectiveFilterPrimaryType = activeFilterPrimaryType,
             body = (if length specificPokemon = 0 then NoPokemonFound
                     else PokemonList
                            (js_sort (\<lambda>a b. d3_ascending (Name a) (Name b)) specificPokemon))\<rparr>)
      else
        (let base = baseSortedCountsArray localeCompare data;
             (currentSortedCountsArray, effective, warnings) =
               (if truthy activeFilterPrimaryType then
                  (case find (\<lambda>d. Some (primaryType d) = activeFilterPrimaryType) base of
                     Some filteredData \<Rightarrow> ([filteredData], activeFilterPrimaryType, [])
                   | None \<Rightarrow> (base, None, [activeFilterPrimaryType]))
                else (base, activeFilterPrimaryType, []));
             maxTotal = d3_max (map (\<lambda>d. Some (real (group_total d))) currentSortedCountsArray)
         in \<lparr>showAllLink = truthy activeFilterPrimaryType,
             backLink = False,
             warned = warnings,
             effectiveFilterPrimaryType = effective,
             body = (if length (allSecondaryTypes localeCompare data) = 0
                        \<or> length currentSortedCountsArray = 0 then NoData
                     else (case maxTotal of
                             None \<Rightarrow> NoValidCounts
                           | Some m \<Rightarrow> if m \<le> 0 then NoValidCounts
                                       else StackedBars currentSortedCountsArray))\<rparr>))"

text \<open>
  The rectangles of the stacked view: one per layer (secondary type) and displayed
  group, given here by what its click handler reads, \<open>d.data.primaryType\<close> and the
  layer's key. The segment filter keeps every one of them, since all counts are
  numbers and no segment has a negative width.
\<close>

definition rects :: "(string \<Rightarrow> string \<Rightarrow> int) \<Rightarrow> pokemon list \<Rightarrow> chart \<Rightarrow> (jsval \<times> string) list" where
  "rects localeCompare data c =
     (case body c of
        StackedBars currentSortedCountsArray \<Rightarrow>
          concat (map (\<lambda>layer_key. map (\<lambda>d. (primaryType d, layer_key)) currentSortedCountsArray)
                    (allSecondaryTypes localeCompare data))
      | _ \<Rightarrow> [])"

text \<open>
  The click handler of a rectangle. The result is the argument pair of the call of
  \<open>createStackedBarChart\<close> it makes, or \<open>None\<close> when it makes none.
\<close>

definition rect_click ::
  "jsval option \<Rightarrow> jsval option \<Rightarrow> jsval \<Rightarrow> string \<Rightarrow> (jsval option \<times> jsval option) option" where
  "rect_click effective activeFilterSecondaryType clickedPrimaryType secondaryTypeKey =
     (if \<not> truthy effective then Some (Some clickedPrimaryType, None)
      else if effective = Some clickedPrimaryType \<and> \<not> truthy activeFilterSecondaryType
      then Some (Some clickedPrimaryType, Some (Str secondaryTypeKey))
      else None)"

text \<open>
  A click on the page drawn for the arguments \<open>(p, s)\<close>: on the "Show All Types"
  link, on the "Back" link, or on a rectangle. A click on something that is not on
  the page is no event at all (\<open>None\<close>).
\<close>

datatype click = ShowAllTypes | BackToPrimary | Rect jsval string

definition on_click ::
  "(string \<Rightarrow> string \<Rightarrow> int) \<Rightarrow> pokemon list \<Rightarrow> jsval option \<times> jsval option \<Rightarrow> click
     \<Rightarrow> (jsval option \<times> jsval option) option" where
  "on_click localeCompare data args ev =
     (let c = createStackedBarChart localeCompare data (fst args) (snd args) in
      case ev of
        ShowAllTypes \<Rightarrow> if showAllLink c then Some (None, None) else None
      | BackToPrimary \<Rightarrow> if backLink c then Some (fst args, None) else None
      | Rect clickedPrimaryType k \<Rightarrow>
          if (clickedPrimaryType, k) \<in> set (rects localeCompare data c)
          then rect_click (effectiveFilterPrimaryType c) (snd args) clickedPrimaryType k
          else None)"

text \<open>
  The drill-down level a page is at, read off the branches the code takes: the list
  view when both arguments are truthy, otherwise the stacked view, which acts as
  primary-filtered when \<open>effectiveFilterPrimaryType\<close> is truthy and as overview when
  it is not.
\<close>

datatype level = Overview | PrimaryFiltered jsval | DetailList jsval jsval

definition level_of :: "(string \<Rightarrow> string \<Rightarrow> int) \<Rightarrow> pokemon list \<Rightarrow> jsval option \<times> jsval option \<Rightarrow> level" where
  "level_of localeCompare data args =
     (let c = createStackedBarChart localeCompare data (fst args) (snd args) in
      if truthy (fst args) \<and> truthy (snd args) then
        (case (fst args, snd args) of
           (Some p, Some s) \<Rightarrow> DetailList p s
         | _ \<Rightarrow> Overview)
      else
        (case effectiveFilterPrimaryType c of
           Some e \<Rightarrow> if truthy (Some e) then PrimaryFiltered e else Overview
         | None \<Rightarrow> Overview))"

section \<open>Ridgeline plot: slider and animation state\<close>









section \<open>Parallel coordinates plot: type filter and selected row\<close>

text \<open>
  \<open>allValidPokemonData\<close>: the rows whose six dimensions are all defined numbers.
\<close>

definition allValidPokemonData :: "pokemon list \<Rightarrow> pokemon list" where
  "allValidPokemonData data =
     filter (\<lambda>d. list_all (\<lambda>dim. dim d \<noteq> None) [HP, Attack, Defense, Sp_Atk, Sp_Def, Speed]) data"

text \<open>
  The state of the plot: the checkboxes (value and whether checked, in document
  order), the closure variable \<open>selectedPokemon\<close>, whether the info window is shown,
  and the rows bound to the paths that \<open>drawPcpChart\<close> drew last.
\<close>

record pcp =
  checkboxes :: "(string \<times> bool) list"
  selectedPokemon :: "pokemon option"
  infoShown :: bool
  paths :: "pokemon list"

definition selectedTypesArray :: "pcp \<Rightarrow> string list" where
  "selectedTypesArray st = map fst (filter snd (checkboxes st))"

definition dataToPlot :: "pokemon list \<Rightarrow> pcp \<Rightarrow> pokemon list" where
  "dataToPlot allValid st = filter (\<lambda>d. Type_1 d \<in> set (selectedTypesArray st)) allValid"

text \<open>
  \<open>drawPcpChart(plotData)\<close> removes the old chart and draws one path per row, unless
  the wrapper is too small (\<open>roomy\<close> false), in which case nothing is drawn.
\<close>

definition drawPcpChart :: "bool \<Rightarrow> pokemon list \<Rightarrow> pcp \<Rightarrow> pcp" where
  "drawPcpChart roomy plotData st = st\<lparr>paths := (if roomy then plotData else [])\<rparr>"

definition updatePlot :: "bool \<Rightarrow> pokemon list \<Rightarrow> pcp \<Rightarrow> pcp" where
  "updatePlot roomy allValid st =
     (let plotData = dataToPlot allValid st;
          st = (case selectedPokemon st of
                  Some sel \<Rightarrow>
                    (case find (\<lambda>p. Name p = Name sel) plotData of
                       None \<Rightarrow> st\<lparr>selectedPokemon := None, infoShown := False\<rparr>
                     | Some _ \<Rightarrow> st)
                | None \<Rightarrow> st)
      in drawPcpChart roomy plotData st)"

text \<open>
  The events: a checkbox changes, "Select All", "Deselect All" (each followed by
  \<open>updatePlot\<close>), a click on the path of a row, and the "Close" button of the info
  window. A path exists only for a row of \<open>paths\<close>; a click on a row without a path
  is no event and leaves the state as it is.
\<close>

datatype pcp_event =
    CheckboxChange string bool
  | SelectAll
  | DeselectAll
  | PathClick pokemon
  | CloseClick

fun pcp_step :: "bool \<Rightarrow> pokemon list \<Rightarrow> pcp_event \<Rightarrow> pcp \<Rightarrow> pcp" where
  "pcp_step roomy allValid (CheckboxChange t b) st =
     updatePlot roomy allValid
       (st\<lparr>checkboxes := map (\<lambda>(v, c). (v, if v = t then b else c)) (checkboxes st)\<rparr>)"
| "pcp_step roomy allValid SelectAll st =
     updatePlot roomy allValid (st\<lparr>checkboxes := map (\<lambda>(v, c). (v, True)) (checkboxes st)\<rparr>)"
| "pcp_step roomy allValid DeselectAll st =
     updatePlot roomy allValid (st\<lparr>checkboxes := map (\<lambda>(v, c). (v, False)) (checkboxes st)\<rparr>)"
| "pcp_step roomy allValid (PathClick d_clicked) st =
     (if d_clicked \<in> set (paths st)
      then st\<lparr>selectedPokemon := Some d_clicked, infoShown := True\<rparr>
      else st)"
| "pcp_step roomy allValid CloseClick st =
     (if infoShown st then st\<lparr>selectedPokemon := None, infoShown := False\<rparr> else st)"

text \<open>
  The state after \<open>createParallelCoordinatesPlot\<close>: one checked checkbox per primary
  type of the valid rows (\<open>typeOrder\<close> stands for the default \<open>sort()\<close>, which only
  orders them), nothing selected, and the first \<open>updatePlot\<close> done. (Without any
  valid row the function stops before it creates a checkbox or a path.)
\<close>

definition pcp_init :: "(string list \<Rightarrow> string list) \<Rightarrow> bool \<Rightarrow> pokemon list \<Rightarrow> pcp" where
  "pcp_init typeOrder roomy allValid =
     updatePlot roomy allValid
       \<lparr>checkboxes = map (\<lambda>t. (t, True)) (typeOrder (js_set_of (map Type_1 allValid))),
        selectedPokemon = None, infoShown = False, paths = []\<rparr>"

text \<open>
  What the selection has to satisfy: the paths are rows of the filtered working set,
  and the selected row, when there is one, is in the filtered working set.
\<close>

definition pcp_inv :: "pokemon list \<Rightarrow> pcp \<Rightarrow> bool" where
  "pcp_inv allValid st =
     (set (paths st) \<subseteq> set (dataToPlot allValid st)
      \<and> (case selectedPokemon st of
            Some sel \<Rightarrow> sel \<in> set (dataToPlot allValid st)
          | None \<Rightarrow> True))"

text \<open>
  A small dataset and a stand-in collation (every pair of names compares equal) for
  concrete evaluations.
\<close>

definition example_data :: "pokemon list" where
  "example_data =
     [row ''Charmander'' ''Fire'' ''None'' (Some 309),
      row ''Charizard'' ''Fire'' ''Flying'' (Some 534),
      row ''Squirtle'' ''Water'' ''None'' (Some 314)]"

definition flat_collation :: "string \<Rightarrow> string \<Rightarrow> int" where
  "flat_collation a b = 0"

text \<open>The same kind of dataset with one row whose primary type is the empty string.\<close>

definition blank_type_data :: "pokemon list" where
  "blank_type_data =
     [row ''Charmander'' ''Fire'' ''None'' (Some 309),
      row ''Unlabelled'' [] ''None'' (Some 300)]"

text \<open>A dataset in which one secondary type is the string \<open>total\<close>.\<close>

definition total_named_data :: "pokemon list" where
  "total_named_data =
     [row ''Charmander'' ''Fire'' ''total'' (Some 309),
      row ''Charizard'' ''Fire'' ''Flying'' (Some 534)]"



text \<open>A state of the parallel coordinates plot over \<open>example_data\<close> with a row selected.\<close>

definition example_pcp :: pcp where
  "example_pcp =
     \<lparr>checkboxes = [(''Fire'', True), (''Water'', True)],
      selectedPokemon = Some (row ''Charizard'' ''Fire'' ''Flying'' (Some 534)),
      infoShown = True,
      paths = example_data\<rparr>"

text \<open>
  A dataset with a row whose secondary type is the empty string, and one in which a
  secondary type is the string \<open>primaryType\<close>.
\<close>

definition blank_secondary_data :: "pokemon list" where
  "blank_secondary_data =
     [row ''Charmander'' ''Fire'' [] (Some 309),
      row ''Charizard'' ''Fire'' ''Flying'' (Some 534)]"

definition primaryType_named_data :: "pokemon list" where
  "primaryType_named_data =
     [row ''Charmander'' ''Fire'' ''primaryType'' (Some 309),
      row ''Squirtle'' ''Water'' ''None'' (Some 314)]"

section \<open>Properties of the density estimate\<close>


lemma kernel_nonneg: "0 < k \<Longrightarrow> 0 \<le> kernelEpanechnikov k v"
proof -
  assume k: "0 < k"
  show ?thesis
  proof (cases "\<bar>v / k\<bar> \<le> 1")
    case True
    then have "(v / k)\<^sup>2 \<le> 1" by (simp only: abs_square_le_1)
    then have "0 \<le> 1 - (v / k) * (v / k)" by (simp only: power2_eq_square diff_ge_0_iff_ge)
    then have "0 \<le> 0.75 * (1 - (v / k) * (v / k)) / k"
      using k by (intro divide_nonneg_pos mult_nonneg_nonneg) simp_all
    with True show ?thesis by (simp only: kernelEpanechnikov_def Let_def if_True)
  next
    case False
    then show ?thesis by (simp only: kernelEpanechnikov_def Let_def if_False order_refl)
  qed
qed

lemma kernel_le: "kernelEpanechnikov 20 v \<le> 3 / 80"
proof (cases "\<bar>v / 20\<bar> \<le> 1")
  case True
  have "0 \<le> (v / 20) * (v / 20)" by simp
  then have "0.75 * (1 - (v / 20) * (v / 20)) / 20 \<le> 0.75 * 1 / (20::real)"
    by (intro divide_right_mono mult_left_mono) simp_all
  with True show ?thesis by (simp add: kernelEpanechnikov_def Let_def)
next
  case False
  then show ?thesis by (simp add: kernelEpanechnikov_def Let_def)
qed

lemma kernel_0: "kernelEpanechnikov 20 0 = 3 / 80"
  by (simp add: kernelEpanechnikov_def)

lemma d3_mean_nonneg:
  assumes "vs \<noteq> []" "\<forall>v\<in>set vs. 0 \<le> v"
  shows "\<exists>d. d3_mean vs = Some d \<and> 0 \<le> d"
  using assms by (simp add: d3_mean_def sum_list_nonneg)

lemma d3_max_foldl_Some:
  "foldl d3_max_step (Some m) (map Some ys) = Some (Max (insert m (set ys)))"
proof (induction ys arbitrary: m)
  case Nil
  then show ?case by simp
next
  case (Cons y ys)
  have "Max (insert (max m y) (set ys)) = Max (insert m (insert y (set ys)))"
    by (metis List.finite_set Max_insert Max_singleton finite.insertI insert_not_empty max.assoc max.commute)
  moreover have "d3_max_step (Some m) (Some y) = Some (max m y)"
    by (simp add: d3_max_step_def max_def)
  ultimately show ?case using Cons.IH [of "max m y"] by simp
qed

lemma d3_max_Some:
  "ys \<noteq> [] \<Longrightarrow> d3_max (map Some ys) = Some (Max (set ys))"
  by (cases ys) (simp_all add: d3_max_def d3_max_step_def d3_max_foldl_Some)


lemma kde_length: "length (kde X V) = length X" and kde_grid: "map fst (kde X V) = X"
  by (simp_all add: kde_def kernelDensityEstimator_def comp_def)

lemma kde_values:
  assumes "V \<noteq> []" "p \<in> set (kde X V)"
  shows "\<exists>d. snd p = Some d \<and> 0 \<le> d"
proof -
  from assms(2) obtain x where p: "p = (x, d3_mean (map (\<lambda>v. kernelEpanechnikov 20 (x - v)) V))"
    by (auto simp: kde_def kernelDensityEstimator_def)
  have "\<forall>y\<in>set (map (\<lambda>v. kernelEpanechnikov 20 (x - v)) V). 0 \<le> y"
    by (simp add: kernel_nonneg)
  moreover have "map (\<lambda>v. kernelEpanechnikov 20 (x - v)) V \<noteq> []"
    using assms(1) by simp
  ultimately show ?thesis
    unfolding p snd_conv by (rule d3_mean_nonneg [rotated])
qed

text \<open>
  Claim C1. When at least two \<open>Total\<close> values of a generation are numbers, the
  density has one pair per grid point, in grid order, and every density value is a
  number that is not negative.
\<close>

theorem density_length_nonneg:
  assumes "2 \<le> length (genTotals vals)"
  shows "length (density X vals) = length X
       \<and> map fst (density X vals) = X
       \<and> (\<forall>p\<in>set (density X vals). \<exists>d. snd p = Some d \<and> 0 \<le> d)"
proof -
  from assms have ne: "genTotals vals \<noteq> []" by auto
  from assms have d: "density X vals = kde X (genTotals vals)"
    by (simp add: density_def)
  show ?thesis
    unfolding d using kde_values [OF ne] by (simp add: kde_length kde_grid)
qed

theorem density_length_nonneg_witness:
  "2 \<le> length (genTotals [row ''a'' ''Fire'' ''None'' (Some 300), row ''b'' ''Fire'' ''None'' None,
                           row ''c'' ''Fire'' ''None'' (Some 310)])
   \<and> density [290, 300] [row ''a'' ''Fire'' ''None'' (Some 300), row ''b'' ''Fire'' ''None'' None,
                           row ''c'' ''Fire'' ''None'' (Some 310)]
       = [(290, Some (9 / 640)), (300, Some (21 / 640))]"
  using density_length_nonneg [of "[row ''a'' ''Fire'' ''None'' (Some 300), row ''b'' ''Fire'' ''None'' None,
                           row ''c'' ''Fire'' ''None'' (Some 310)]" "[290, 300]"]
  by (simp add: density_def kde_def kernelDensityEstimator_def kernelEpanechnikov_def d3_mean_def
      genTotals_def row_def List.map_filter_simps)

text \<open>
  Claim C2. With fewer than two valid observations the density is the empty list
  (so no maximum exists either), not a list of zeros.
\<close>

theorem density_empty_below_two:
  assumes "length (genTotals vals) < 2"
  shows "density X vals = [] \<and> maxDensity X vals = None"
  using assms by (simp add: density_def maxDensity_def d3_max_def)

theorem density_empty_below_two_witness:
  "length (genTotals [row ''a'' ''Fire'' ''None'' (Some 300), row ''b'' ''Fire'' ''None'' None]) < 2
   \<and> density [290, 300] [row ''a'' ''Fire'' ''None'' (Some 300), row ''b'' ''Fire'' ''None'' None] = []"
  using density_empty_below_two [of "[row ''a'' ''Fire'' ''None'' (Some 300), row ''b'' ''Fire'' ''None'' None]" "[290, 300]"]
  by (simp add: genTotals_def row_def List.map_filter_simps)

lemma kde_two_equal:
  "kde X [a, a] = map (\<lambda>x. (x, Some (kernelEpanechnikov 20 (x - a)))) X"
  by (simp add: kde_def kernelDensityEstimator_def d3_mean_def)

text \<open>
  Claim C9. For the sample 10, 10 and any grid that contains 10 the density is not
  empty, its maximum is 3/80 (positive, and a real number), the maximum is the value
  at \<open>x = 10\<close>, and no grid point has a larger value.
\<close>

theorem density_of_two_tens:
  assumes "map Total vals = [Some 10, Some 10]" and "10 \<in> set X"
  shows "density X vals \<noteq> []
       \<and> maxDensity X vals = Some (3 / 80)
       \<and> yDomainMax X vals = 3 / 80
       \<and> (10, Some (3 / 80)) \<in> set (density X vals)
       \<and> (\<forall>p\<in>set (density X vals). \<exists>d. snd p = Some d \<and> 0 \<le> d \<and> d \<le> 3 / 80)"
proof -
  let ?f = "\<lambda>x. kernelEpanechnikov 20 (x - 10)"
  from assms(1) have g: "genTotals vals = [10, 10]"
    by (simp add: genTotals_def List.map_filter_simps)
  then have d: "density X vals = map (\<lambda>x. (x, Some (?f x))) X"
    by (simp add: density_def kde_two_equal)
  from assms(2) have ne: "X \<noteq> []" by auto
  have at10: "?f 10 = 3 / 80" by (simp add: kernel_0)
  have mx: "Max (set (map ?f X)) = 3 / 80"
  proof (rule Max_eqI)
    show "finite (set (map ?f X))" by simp
    show "y \<le> 3 / 80" if "y \<in> set (map ?f X)" for y
    proof -
      from that obtain x where "y = ?f x" by auto
      then show ?thesis by (simp only: kernel_le)
    qed
    show "3 / 80 \<in> set (map ?f X)"
      using assms(2) at10 by (metis (no_types, lifting) image_eqI list.set_map)
  qed
  have "maxDensity X vals = d3_max (map Some (map ?f X))"
    by (simp add: maxDensity_def d comp_def)
  also have "\<dots> = Some (Max (set (map ?f X)))"
    by (rule d3_max_Some) (simp add: ne)
  finally have m: "maxDensity X vals = Some (3 / 80)"
    by (simp only: mx)
  have in10: "(10, Some (3 / 80)) \<in> set (density X vals)"
    unfolding d using assms(2) at10 by (metis (no_types, lifting) image_eqI list.set_map)
  have bounds: "\<exists>dd. snd p = Some dd \<and> 0 \<le> dd \<and> dd \<le> 3 / 80" if "p \<in> set (density X vals)" for p
  proof -
    from that obtain x where "p = (x, Some (?f x))" unfolding d by auto
    moreover have "0 \<le> ?f x" by (rule kernel_nonneg) simp
    moreover have "?f x \<le> 3 / 80" by (rule kernel_le)
    ultimately show ?thesis by (simp only: snd_conv) blast
  qed
  show ?thesis
    using ne m in10 bounds by (simp add: d yDomainMax_def)
qed

theorem density_of_two_tens_witness:
  "map Total [row ''a'' ''Fire'' ''None'' (Some 10), row ''b'' ''Fire'' ''None'' (Some 10)] = [Some 10, Some 10]
   \<and> (10::real) \<in> set [0, 10, 20]
   \<and> density [0, 10, 20] [row ''a'' ''Fire'' ''None'' (Some 10), row ''b'' ''Fire'' ''None'' (Some 10)]
       = [(0, Some (9 / 320)), (10, Some (3 / 80)), (20, Some (9 / 320))]
   \<and> maxDensity [0, 10, 20] [row ''a'' ''Fire'' ''None'' (Some 10), row ''b'' ''Fire'' ''None'' (Some 10)]
       = Some (3 / 80)"
  using density_of_two_tens [of "[row ''a'' ''Fire'' ''None'' (Some 10), row ''b'' ''Fire'' ''None'' (Some 10)]" "[0, 10, 20]"]
  by (simp add: density_def kde_def kernelDensityEstimator_def kernelEpanechnikov_def d3_mean_def
      genTotals_def row_def List.map_filter_simps)

section \<open>Properties of the aggregation\<close>


lemma group_add_size:
  "sum_list (map (\<lambda>g. length (snd g)) (group_add k d gs)) = Suc (sum_list (map (\<lambda>g. length (snd g)) gs))"
  by (induction k d gs rule: group_add.induct) simp_all

lemma d3_group_size_foldl:
  "sum_list (map (\<lambda>g. length (snd g)) (foldl (\<lambda>gs d. group_add (keyof d) d gs) acc data))
     = sum_list (map (\<lambda>g. length (snd g)) acc) + length data"
  by (induction data arbitrary: acc) (simp_all add: group_add_size)

lemma d3_group_size:
  "sum_list (map (\<lambda>g. length (snd g)) (d3_group data keyof)) = length data"
  by (simp add: d3_group_def d3_group_size_foldl)

lemma total_of_reduce_leaves: "total_of (reduce_leaves secTypes leaves) = length leaves"
  by (simp add: total_of_def reduce_leaves_def)

lemma js_insert_sum:
  "sum_list (map f (js_insert cmp x ys)) = f x + sum_list (map f ys)"
  for f :: "'a \<Rightarrow> nat"
  by (induction ys) simp_all

lemma js_sort_sum: "sum_list (map f (js_sort cmp xs)) = sum_list (map f xs)"
  for f :: "'a \<Rightarrow> nat"
  by (induction xs) (simp_all add: js_sort_def js_insert_sum)

lemma group_total_flatten: "group_total (flatten e) = total_of (snd e)"
  by (simp add: group_total_def flatten_def)

lemma countsByTypeFull_totals:
  "map (\<lambda>e. total_of (snd e)) (countsByTypeFull lc data) = map (\<lambda>g. length (snd g)) (d3_group data Type_1)"
  by (simp add: countsByTypeFull_def total_of_reduce_leaves split_def comp_def)

text \<open>
  Claim C6. The totals of the groups add up to the number of rows. The stacked bar
  chart filters nothing out before grouping, so every row of the dataset counts.
\<close>

theorem totals_sum_to_record_count:
  "sum_list (map group_total (baseSortedCountsArray localeCompare data)) = length data"
proof -
  have "sum_list (map group_total (baseSortedCountsArray localeCompare data))
      = sum_list (map (\<lambda>e. total_of (snd e)) (sortedEntries localeCompare data))"
    by (simp add: baseSortedCountsArray_def comp_def group_total_flatten)
  also have "\<dots> = sum_list (map (\<lambda>e. total_of (snd e)) (countsByTypeFull localeCompare data))"
    unfolding sortedEntries_def by (rule js_sort_sum)
  also have "\<dots> = length data"
    by (simp only: countsByTypeFull_totals d3_group_size)
  finally show ?thesis .
qed

lemma js_insert_insort_key:
  "js_insert (\<lambda>a b. int (f b) - int (f a)) x ys = insort_key (\<lambda>a. - int (f a)) x ys"
  by (induction ys) simp_all

lemma js_sort_sort_key:
  "js_sort (\<lambda>a b. int (f b) - int (f a)) xs = sort_key (\<lambda>a. - int (f a)) xs"
  by (induction xs) (simp_all add: js_sort_def js_insert_insort_key)

lemma sortedEntries_sort_key:
  "sortedEntries lc data = sort_key (\<lambda>e. - int (total_of (snd e))) (countsByTypeFull lc data)"
proof -
  have "(\<lambda>(_, a) (_, b). int (total_of b) - int (total_of a))
      = (\<lambda>a b. int (total_of (snd b)) - int (total_of (snd (a :: string \<times> (string \<rightharpoonup> nat)))))"
    by (simp add: fun_eq_iff split_def)
  then have "sortedEntries lc data
      = js_sort (\<lambda>a b. int (total_of (snd b)) - int (total_of (snd a))) (countsByTypeFull lc data)"
    unfolding sortedEntries_def by (rule arg_cong)
  also have "\<dots> = sort_key (\<lambda>e. - int (total_of (snd e))) (countsByTypeFull lc data)"
    by (rule js_sort_sort_key [where f = "\<lambda>e. total_of (snd e)"])
  finally show ?thesis .
qed

lemma group_add_keys:
  "map fst (group_add k d gs) = (if k \<in> set (map fst gs) then map fst gs else map fst gs @ [k])"
  by (induction k d gs rule: group_add.induct) auto

lemma d3_group_keys_foldl:
  "map fst (foldl (\<lambda>gs d. group_add (keyof d) d gs) acc data)
     = foldl (\<lambda>s x. if x \<in> set s then s else s @ [x]) (map fst acc) (map keyof data)"
  by (induction data arbitrary: acc) (simp_all add: group_add_keys)

lemma d3_group_keys: "map fst (d3_group data keyof) = js_set_of (map keyof data)"
  by (simp add: d3_group_def js_set_of_def d3_group_keys_foldl)

text \<open>
  Claim C7. The sorted entries are in descending order of \<open>total\<close>; entries of equal
  total keep the order of the rollup, whose keys are in the order of their first
  occurrence in the data; sorting the sorted entries again changes nothing; and the
  group list is these entries, flattened one by one.
\<close>

theorem groups_sorted_descending_stable:
  "sorted_wrt (\<lambda>a b. total_of (snd b) \<le> total_of (snd a)) (sortedEntries localeCompare data)
   \<and> (\<forall>n. filter (\<lambda>e. total_of (snd e) = n) (sortedEntries localeCompare data)
          = filter (\<lambda>e. total_of (snd e) = n) (countsByTypeFull localeCompare data))
   \<and> map fst (countsByTypeFull localeCompare data) = js_set_of (map Type_1 data)
   \<and> js_sort (\<lambda>(_, a) (_, b). int (total_of b) - int (total_of a))
        (sortedEntries localeCompare data) = sortedEntries localeCompare data
   \<and> baseSortedCountsArray localeCompare data = map flatten (sortedEntries localeCompare data)"
proof -
  let ?key = "\<lambda>e :: string \<times> (string \<rightharpoonup> nat). - int (total_of (snd e))"
  let ?cmp = "\<lambda>a b :: string \<times> (string \<rightharpoonup> nat). int (total_of (snd b)) - int (total_of (snd a))"
  let ?xs = "countsByTypeFull localeCompare data"
  have eq: "sortedEntries localeCompare data = sort_key ?key ?xs"
    by (rule sortedEntries_sort_key)
  have "sorted (map ?key (sort_key ?key ?xs))"
    by (rule sorted_sort_key)
  then have s1: "sorted_wrt (\<lambda>a b. total_of (snd b) \<le> total_of (snd a)) (sort_key ?key ?xs)"
    by (simp add: sorted_map)
  have s2: "filter (\<lambda>e. total_of (snd e) = n) (sort_key ?key ?xs)
          = filter (\<lambda>e. total_of (snd e) = n) ?xs" for n
    using sort_key_stable [of ?key "- int n" ?xs] by simp
  have s3: "map fst ?xs = js_set_of (map Type_1 data)"
    by (simp add: countsByTypeFull_def split_def comp_def d3_group_keys [unfolded comp_def])
  have cmp: "(\<lambda>(_, a) (_, b). int (total_of b) - int (total_of a)) = ?cmp"
    by (simp add: fun_eq_iff split_def)
  have "js_sort ?cmp (sort_key ?key ?xs) = sort_key ?key (sort_key ?key ?xs)"
    by (rule js_sort_sort_key [where f = "\<lambda>e. total_of (snd e)"])
  also have "\<dots> = sort_key ?key ?xs"
    by (rule sort_key_id_if_sorted) (rule sorted_sort_key)
  finally have s4: "js_sort (\<lambda>(_, a) (_, b). int (total_of b) - int (total_of a))
        (sort_key ?key ?xs) = sort_key ?key ?xs"
    by (simp only: cmp)
  show ?thesis
    unfolding eq using s1 s2 s3 s4 by (simp add: baseSortedCountsArray_def eq)
qed

section \<open>Properties of the stacked bar chart views\<close>


lemma js_insert_set: "set (js_insert cmp x ys) = insert x (set ys)"
  by (induction ys) auto

lemma js_sort_set: "set (js_sort cmp xs) = set xs"
  by (induction xs) (simp_all add: js_sort_def js_insert_set)

lemma js_insert_length: "length (js_insert cmp x ys) = Suc (length ys)"
  by (induction ys) simp_all

lemma js_sort_length: "length (js_sort cmp xs) = length xs"
  by (induction xs) (simp_all add: js_sort_def js_insert_length)

lemma js_set_of_foldl_set:
  "set (foldl (\<lambda>s x. if x \<in> set s then s else s @ [x]) acc xs) = set acc \<union> set xs"
  by (induction xs arbitrary: acc) auto

lemma js_set_of_set: "set (js_set_of xs) = set xs"
  by (simp add: js_set_of_def js_set_of_foldl_set)

lemma js_set_of_foldl_distinct:
  "distinct acc \<Longrightarrow> distinct (foldl (\<lambda>s x. if x \<in> set s then s else s @ [x]) acc xs)"
  by (induction xs arbitrary: acc) auto

lemma js_set_of_distinct: "distinct (js_set_of xs)"
  by (simp add: js_set_of_def js_set_of_foldl_distinct)

lemma allSecondaryTypes_set: "set (allSecondaryTypes lc data) = Type_2 ` set data"
  by (simp add: allSecondaryTypes_def js_sort_set js_set_of_set)

lemma allSecondaryTypes_Nil: "allSecondaryTypes lc data = [] \<longleftrightarrow> data = []"
  using allSecondaryTypes_set [of lc data] by (metis image_is_empty set_empty)

lemma group_add_leaves:
  "\<forall>g\<in>set gs. snd g \<noteq> [] \<Longrightarrow> \<forall>g\<in>set (group_add k d gs). snd g \<noteq> []"
  by (induction k d gs rule: group_add.induct) auto

lemma d3_group_leaves_foldl:
  "\<forall>g\<in>set acc. snd g \<noteq> [] \<Longrightarrow>
   \<forall>g\<in>set (foldl (\<lambda>gs d. group_add (keyof d) d gs) acc data). snd g \<noteq> []"
proof (induction data arbitrary: acc)
  case Nil
  then show ?case by simp
next
  case (Cons d data)
  show ?case
    unfolding foldl_Cons by (rule Cons.IH) (rule group_add_leaves [OF Cons.prems])
qed

lemma d3_group_leaves: "g \<in> set (d3_group data keyof) \<Longrightarrow> snd g \<noteq> []"
  using d3_group_leaves_foldl [of "[]" keyof data] by (simp add: d3_group_def)

lemma base_set:
  "set (baseSortedCountsArray lc data) = flatten ` set (countsByTypeFull lc data)"
  by (simp add: baseSortedCountsArray_def sortedEntries_def js_sort_set)

lemma base_total_pos:
  assumes "d \<in> set (baseSortedCountsArray lc data)"
  shows "0 < group_total d"
proof -
  from assms obtain k leaves where g: "(k, leaves) \<in> set (d3_group data Type_1)"
    and d: "d = flatten (k, reduce_leaves (allSecondaryTypes lc data) leaves)"
    by (auto simp: base_set countsByTypeFull_def)
  from d3_group_leaves [OF g] have "leaves \<noteq> []" by simp
  then show ?thesis
    by (simp add: d group_total_flatten total_of_reduce_leaves)
qed

lemma d3_group_Nil: "d3_group data keyof = [] \<longleftrightarrow> data = []"
proof
  assume "d3_group data keyof = []"
  then show "data = []" using d3_group_size [of data keyof] by simp
next
  assume "data = []"
  then show "d3_group data keyof = []" by (simp add: d3_group_def)
qed

lemma base_Nil: "baseSortedCountsArray lc data = [] \<longleftrightarrow> data = []"
proof -
  have "length (baseSortedCountsArray lc data) = length (d3_group data Type_1)"
    by (simp add: baseSortedCountsArray_def sortedEntries_def js_sort_length countsByTypeFull_def)
  then show ?thesis
    using d3_group_Nil [of data Type_1] by (metis length_0_conv)
qed

lemma maxTotal_pos:
  assumes "cur \<noteq> []" and "\<forall>d\<in>set cur. 0 < group_total d"
  shows "\<exists>m. d3_max (map (\<lambda>d. Some (real (group_total d))) cur) = Some m \<and> 0 < m"
proof -
  let ?ys = "map (\<lambda>d. real (group_total d)) cur"
  have ne: "?ys \<noteq> []" using assms(1) by simp
  have "d3_max (map Some ?ys) = Some (Max (set ?ys))"
    by (rule d3_max_Some [OF ne])
  moreover have "0 < Max (set ?ys)"
  proof -
    from assms(1) obtain d where d: "d \<in> set cur" by (cases cur) auto
    then have "real (group_total d) \<le> Max (set ?ys)" by (intro Max_ge) auto
    moreover have "0 < real (group_total d)" using assms(2) d by simp
    ultimately show ?thesis by linarith
  qed
  ultimately show ?thesis by (simp add: comp_def)
qed

lemma stacked_body:
  assumes "cur \<noteq> []" and "set cur \<subseteq> set (baseSortedCountsArray lc data)" and "data \<noteq> []"
  shows "(if length (allSecondaryTypes lc data) = 0 \<or> length cur = 0 then NoData
          else (case d3_max (map (\<lambda>d. Some (real (group_total d))) cur) of
                  None \<Rightarrow> NoValidCounts
                | Some m \<Rightarrow> if m \<le> 0 then NoValidCounts else StackedBars cur)) = StackedBars cur"
proof -
  have "\<forall>d\<in>set cur. 0 < group_total d"
    using assms(2) base_total_pos by blast
  from maxTotal_pos [OF assms(1) this] obtain m
    where "d3_max (map (\<lambda>d. Some (real (group_total d))) cur) = Some m" "0 < m" by blast
  then show ?thesis
    using assms(1,3) by (simp add: allSecondaryTypes_Nil)
qed

lemma chart_overview:
  assumes "\<not> truthy p"
  shows "createStackedBarChart lc data p s =
           \<lparr>showAllLink = False, backLink = False, warned = [], effectiveFilterPrimaryType = p,
            body = (if data = [] then NoData else StackedBars (baseSortedCountsArray lc data))\<rparr>"
proof (cases "data = []")
  case True
  then show ?thesis
    using assms by (simp add: createStackedBarChart_def Let_def allSecondaryTypes_Nil)
next
  case False
  then have "baseSortedCountsArray lc data \<noteq> []" by (simp add: base_Nil)
  from stacked_body [OF this subset_refl False] show ?thesis
    using assms False by (simp add: createStackedBarChart_def Let_def)
qed

lemma chart_fallback:
  assumes "truthy p" "\<not> truthy s"
    and "find (\<lambda>d. Some (primaryType d) = p) (baseSortedCountsArray lc data) = None"
  shows "createStackedBarChart lc data p s =
           \<lparr>showAllLink = True, backLink = False, warned = [p], effectiveFilterPrimaryType = None,
            body = (if data = [] then NoData else StackedBars (baseSortedCountsArray lc data))\<rparr>"
proof (cases "data = []")
  case True
  then show ?thesis
    using assms by (simp add: createStackedBarChart_def Let_def allSecondaryTypes_Nil)
next
  case False
  then have "baseSortedCountsArray lc data \<noteq> []" by (simp add: base_Nil)
  from stacked_body [OF this subset_refl False] show ?thesis
    using assms False by (simp add: createStackedBarChart_def Let_def)
qed

lemma chart_primary:
  assumes "truthy p" "\<not> truthy s"
    and "find (\<lambda>d. Some (primaryType d) = p) (baseSortedCountsArray lc data) = Some f"
  shows "createStackedBarChart lc data p s =
           \<lparr>showAllLink = True, backLink = False, warned = [], effectiveFilterPrimaryType = p,
            body = StackedBars [f]\<rparr>"
proof -
  from assms(3) have f: "f \<in> set (baseSortedCountsArray lc data)"
    by (auto simp: find_Some_iff)
  then have ne: "data \<noteq> []" using base_Nil [of lc data] by auto
  have "set [f] \<subseteq> set (baseSortedCountsArray lc data)" using f by simp
  from stacked_body [OF _ this ne] show ?thesis
    using assms by (simp add: createStackedBarChart_def Let_def)
qed

lemma chart_detail:
  assumes "truthy p" "truthy s"
  shows "createStackedBarChart lc data p s =
           \<lparr>showAllLink = True, backLink = True, warned = [], effectiveFilterPrimaryType = p,
            body = (let specificPokemon = filter (\<lambda>x. Some (Str (Type_1 x)) = p \<and> Some (Str (Type_2 x)) = s) data
                    in if specificPokemon = [] then NoPokemonFound
                       else PokemonList (js_sort (\<lambda>a b. d3_ascending (Name a) (Name b)) specificPokemon))\<rparr>"
  using assms by (simp add: createStackedBarChart_def Let_def)


lemma truthy_cases: "truthy p \<Longrightarrow> \<exists>q. p = Some q"
  by (cases p) simp_all

lemma level_detail:
  "truthy p \<Longrightarrow> truthy s \<Longrightarrow> \<exists>q r. p = Some q \<and> s = Some r \<and> level_of lc data (p, s) = DetailList q r"
  by (cases p; cases s) (simp_all add: level_of_def)

lemma level_overview_plain:
  "\<not> truthy p \<Longrightarrow> level_of lc data (p, s) = Overview"
  by (cases p) (simp_all add: level_of_def chart_overview)

lemma level_overview_fallback:
  "truthy p \<Longrightarrow> \<not> truthy s
   \<Longrightarrow> find (\<lambda>d. Some (primaryType d) = p) (baseSortedCountsArray lc data) = None
   \<Longrightarrow> level_of lc data (p, s) = Overview"
  by (simp add: level_of_def chart_fallback)

lemma level_primary:
  "truthy (Some q) \<Longrightarrow> \<not> truthy s
   \<Longrightarrow> find (\<lambda>d. Some (primaryType d) = Some q) (baseSortedCountsArray lc data) = Some f
   \<Longrightarrow> level_of lc data (Some q, s) = PrimaryFiltered q"
  by (simp add: level_of_def chart_primary)

lemma level_Overview_iff:
  "level_of lc data (p, s) = Overview \<longleftrightarrow>
     \<not> truthy p \<or> (\<not> truthy s \<and> find (\<lambda>d. Some (primaryType d) = p) (baseSortedCountsArray lc data) = None)"
proof (cases "truthy p")
  case False
  then show ?thesis by (simp add: level_overview_plain)
next
  case p: True
  then obtain q where q: "p = Some q" using truthy_cases by blast
  show ?thesis
  proof (cases "truthy s")
    case True
    with p level_detail [OF p True, of lc data] show ?thesis by auto
  next
    case s: False
    show ?thesis
    proof (cases "find (\<lambda>d. Some (primaryType d) = p) (baseSortedCountsArray lc data)")
      case None
      with p s show ?thesis by (simp add: level_overview_fallback)
    next
      case (Some f)
      with p s q level_primary [of q s lc data f] show ?thesis by simp
    qed
  qed
qed

lemma level_Primary_iff:
  "level_of lc data (p, s) = PrimaryFiltered q \<longleftrightarrow>
     truthy p \<and> \<not> truthy s \<and> p = Some q
     \<and> find (\<lambda>d. Some (primaryType d) = p) (baseSortedCountsArray lc data) \<noteq> None"
proof (cases "truthy p")
  case False
  then show ?thesis by (simp add: level_overview_plain)
next
  case p: True
  then obtain q' where q': "p = Some q'" using truthy_cases by blast
  show ?thesis
  proof (cases "truthy s")
    case True
    with p level_detail [OF p True, of lc data] show ?thesis by auto
  next
    case s: False
    show ?thesis
    proof (cases "find (\<lambda>d. Some (primaryType d) = p) (baseSortedCountsArray lc data)")
      case None
      with p s show ?thesis by (simp add: level_overview_fallback)
    next
      case (Some f)
      with p s q' level_primary [of q' s lc data f] show ?thesis by auto
    qed
  qed
qed

lemma level_Detail_iff:
  "level_of lc data (p, s) = DetailList q r \<longleftrightarrow> truthy p \<and> truthy s \<and> p = Some q \<and> s = Some r"
proof (cases "truthy p \<and> truthy s")
  case True
  then show ?thesis using level_detail [of p s lc data] by auto
next
  case False
  then have "\<not> truthy p \<or> (truthy p \<and> \<not> truthy s)" by blast
  then show ?thesis
  proof
    assume "\<not> truthy p"
    then show ?thesis by (simp add: level_overview_plain)
  next
    assume ps: "truthy p \<and> \<not> truthy s"
    then obtain q' where q': "p = Some q'" using truthy_cases by blast
    show ?thesis
    proof (cases "find (\<lambda>d. Some (primaryType d) = p) (baseSortedCountsArray lc data)")
      case None
      with ps show ?thesis by (simp add: level_overview_fallback)
    next
      case (Some f)
      with ps q' level_primary [of q' s lc data f] show ?thesis by auto
    qed
  qed
qed

lemma rects_stacked:
  "body c = StackedBars cur \<Longrightarrow>
   (q, k) \<in> set (rects lc data c) \<longleftrightarrow> k \<in> set (allSecondaryTypes lc data) \<and> q \<in> primaryType ` set cur"
  by (auto simp: rects_def)

lemma rects_other:
  "body c = NoData \<or> body c = NoValidCounts \<or> body c = NoPokemonFound \<or> body c = PokemonList ps
   \<Longrightarrow> rects lc data c = []"
  by (auto simp: rects_def)

lemma find_primary_Some:
  "q \<in> primaryType ` set base \<Longrightarrow> \<exists>f. find (\<lambda>d. Some (primaryType d) = Some q) base = Some f \<and> primaryType f = q"
proof (cases "find (\<lambda>d. Some (primaryType d) = Some q) base")
  case None
  moreover assume "q \<in> primaryType ` set base"
  ultimately show ?thesis by (auto simp: find_None_iff)
next
  case (Some f)
  then show ?thesis by (auto simp: find_Some_iff)
qed

lemma overview_rects:
  assumes "level_of lc data (p, s) = Overview"
    and "(q, k) \<in> set (rects lc data (createStackedBarChart lc data p s))"
  shows "q \<in> primaryType ` set (baseSortedCountsArray lc data)"
    and "\<not> truthy (effectiveFilterPrimaryType (createStackedBarChart lc data p s))"
proof -
  let ?base = "baseSortedCountsArray lc data"
  from assms(1) have "\<not> truthy p \<or> (truthy p \<and> \<not> truthy s \<and> find (\<lambda>d. Some (primaryType d) = p) ?base = None)"
    by (auto simp: level_Overview_iff)
  then have c: "body (createStackedBarChart lc data p s) = (if data = [] then NoData else StackedBars ?base)
      \<and> \<not> truthy (effectiveFilterPrimaryType (createStackedBarChart lc data p s))"
  proof
    assume "\<not> truthy p"
    then show ?thesis by (simp add: chart_overview)
  next
    assume "truthy p \<and> \<not> truthy s \<and> find (\<lambda>d. Some (primaryType d) = p) ?base = None"
    then show ?thesis by (simp add: chart_fallback)
  qed
  then show "\<not> truthy (effectiveFilterPrimaryType (createStackedBarChart lc data p s))" by simp
  from c assms(2) show "q \<in> primaryType ` set ?base"
    by (cases "data = []") (simp_all add: rects_other rects_stacked)
qed

lemma from_overview:
  assumes "level_of lc data (p, s) = Overview"
    and "(q, k) \<in> set (rects lc data (createStackedBarChart lc data p s))"
    and "truthy (Some q)"
  shows "on_click lc data (p, s) (Rect q k) = Some (Some q, None)"
    and "level_of lc data (Some q, None) = PrimaryFiltered q"
proof -
  from overview_rects [OF assms(1,2)]
  have q: "q \<in> primaryType ` set (baseSortedCountsArray lc data)"
    and e: "\<not> truthy (effectiveFilterPrimaryType (createStackedBarChart lc data p s))" by blast+
  show "on_click lc data (p, s) (Rect q k) = Some (Some q, None)"
    using assms(2) e by (simp add: on_click_def rect_click_def)
  from find_primary_Some [OF q] obtain f
    where "find (\<lambda>d. Some (primaryType d) = Some q) (baseSortedCountsArray lc data) = Some f" by blast
  then show "level_of lc data (Some q, None) = PrimaryFiltered q"
    using assms(3) by (intro level_primary) simp_all
qed

lemma from_primary:
  assumes "level_of lc data (p, s) = PrimaryFiltered q"
    and "(q', k) \<in> set (rects lc data (createStackedBarChart lc data p s))"
    and "k \<noteq> []"
  shows "q' = q"
    and "on_click lc data (p, s) (Rect q' k) = Some (Some q, Some (Str k))"
    and "level_of lc data (Some q, Some (Str k)) = DetailList q (Str k)"
proof -
  let ?base = "baseSortedCountsArray lc data"
  from assms(1) [unfolded level_Primary_iff] have p: "truthy p" "\<not> truthy s" "p = Some q"
    and "find (\<lambda>d. Some (primaryType d) = p) ?base \<noteq> None"
    by blast+
  then obtain f where f: "find (\<lambda>d. Some (primaryType d) = p) ?base = Some f" by blast
  then have pf: "primaryType f = q" using p(3) by (auto simp: find_Some_iff)
  have c: "createStackedBarChart lc data p s =
      \<lparr>showAllLink = True, backLink = False, warned = [], effectiveFilterPrimaryType = p,
       body = StackedBars [f]\<rparr>"
    by (rule chart_primary [OF p(1,2) f])
  from assms(2) show q': "q' = q"
    unfolding c by (simp add: rects_stacked pf)
  show "on_click lc data (p, s) (Rect q' k) = Some (Some q, Some (Str k))"
    using assms(2) p(1,2) q' unfolding c on_click_def fst_conv snd_conv Let_def click.case
    by (simp add: rect_click_def p(3))
  show "level_of lc data (Some q, Some (Str k)) = DetailList q (Str k)"
    using p(1,3) assms(3) by (simp add: level_Detail_iff)
qed

lemma from_detail:
  assumes "level_of lc data (p, s) = DetailList q r"
  shows "rects lc data (createStackedBarChart lc data p s) = []"
    and "on_click lc data (p, s) (Rect q' k) = None"
    and "on_click lc data (p, s) BackToPrimary = Some (Some q, None)"
    and "q \<in> primaryType ` set (baseSortedCountsArray lc data)
         \<Longrightarrow> level_of lc data (Some q, None) = PrimaryFiltered q"
proof -
  from assms [unfolded level_Detail_iff] have p: "truthy p" "truthy s" "p = Some q" "s = Some r"
    by blast+
  show r: "rects lc data (createStackedBarChart lc data p s) = []"
    by (simp add: chart_detail [OF p(1,2)] rects_def Let_def)
  show "on_click lc data (p, s) (Rect q' k) = None"
    by (simp add: on_click_def r)
  show "on_click lc data (p, s) BackToPrimary = Some (Some q, None)"
    unfolding on_click_def fst_conv snd_conv Let_def click.case chart_detail [OF p(1,2)]
    by (simp add: p(3))
  assume "q \<in> primaryType ` set (baseSortedCountsArray lc data)"
  from find_primary_Some [OF this] obtain f
    where "find (\<lambda>d. Some (primaryType d) = Some q) (baseSortedCountsArray lc data) = Some f" by blast
  then show "level_of lc data (Some q, None) = PrimaryFiltered q"
    using p(1,3) by (intro level_primary) simp_all
qed

lemma show_all:
  shows "on_click lc data (p, s) ShowAllTypes = (if truthy p then Some (None, None) else None)"
  and "level_of lc data (None, None) = Overview"
  and "level_of lc data (p, s) \<noteq> Overview \<Longrightarrow> truthy p"
proof -
  have "showAllLink (createStackedBarChart lc data p s) = truthy p"
    by (simp add: createStackedBarChart_def Let_def split_def)
  then show "on_click lc data (p, s) ShowAllTypes = (if truthy p then Some (None, None) else None)"
    by (simp add: on_click_def)
  show "level_of lc data (None, None) = Overview"
    by (simp add: level_overview_plain)
  show "level_of lc data (p, s) \<noteq> Overview \<Longrightarrow> truthy p"
    by (auto simp: level_Overview_iff)
qed


lemmas agg_defs = baseSortedCountsArray_def sortedEntries_def countsByTypeFull_def d3_group_def
  allSecondaryTypes_def js_set_of_def js_sort_def secondaryCompare_def reduce_leaves_def
  count_leaf_def flatten_def row_def flat_collation_def

lemma example_allSecondaryTypes:
  "allSecondaryTypes flat_collation example_data = [''None'', ''Flying'']"
  by (simp add: example_data_def agg_defs)

lemma example_primaryTypes:
  "map primaryType (baseSortedCountsArray flat_collation example_data) = [Str ''Fire'', Str ''Water'']"
  by (simp add: example_data_def agg_defs total_of_def)

lemma find_primary_None:
  "q \<notin> set (map primaryType base) \<Longrightarrow> find (\<lambda>d. Some (primaryType d) = Some q) base = None"
  by (auto simp: find_None_iff)

lemma example_find_Dark:
  "find (\<lambda>d. Some (primaryType d) = Some (Str ''Dark'')) (baseSortedCountsArray flat_collation example_data) = None"
  by (rule find_primary_None) (simp add: example_primaryTypes)

lemma example_rects:
  "set (rects flat_collation example_data (createStackedBarChart flat_collation example_data None None))
     = {Str ''Fire'', Str ''Water''} \<times> {''None'', ''Flying''}"
proof -
  have "example_data \<noteq> []" by (simp add: example_data_def)
  then have "body (createStackedBarChart flat_collation example_data None None)
       = StackedBars (baseSortedCountsArray flat_collation example_data)"
    by (simp add: chart_overview)
  from rects_stacked [OF this] have "(q, k) \<in> set (rects flat_collation example_data (createStackedBarChart flat_collation example_data None None))
     \<longleftrightarrow> (q, k) \<in> {Str ''Fire'', Str ''Water''} \<times> {''None'', ''Flying''}" for q k
    using example_primaryTypes by (simp add: example_allSecondaryTypes flip: set_map) blast
  then show ?thesis by auto
qed



text \<open>
  The transitions in terms of the value \<open>q\<close> that the click handler reads from the
  field \<open>primaryType\<close> of the clicked group. When that value is truthy, a click on an
  overview page leads to the page filtered by it. On a primary-filtered page every
  rectangle carries the filtered value, and a click on one whose layer key is not the
  empty string leads to the list page. On a list page no rectangle click exists, and
  the "Back" link calls the chart with the same primary value and no secondary type.
  From every page that is not an overview the "Show All Types" link leads to the
  overview.
\<close>

lemma drill_down_transitions:
  "(level_of lc data (p, s) = Overview
      \<and> (q, k) \<in> set (rects lc data (createStackedBarChart lc data p s)) \<and> truthy (Some q)
    \<longrightarrow> on_click lc data (p, s) (Rect q k) = Some (Some q, None)
        \<and> level_of lc data (Some q, None) = PrimaryFiltered q)
   \<and> (level_of lc data (p, s) = PrimaryFiltered q
      \<and> (q', k) \<in> set (rects lc data (createStackedBarChart lc data p s)) \<and> k \<noteq> []
    \<longrightarrow> q' = q
        \<and> on_click lc data (p, s) (Rect q' k) = Some (Some q, Some (Str k))
        \<and> level_of lc data (Some q, Some (Str k)) = DetailList q (Str k))
   \<and> (level_of lc data (p, s) = DetailList q r
    \<longrightarrow> on_click lc data (p, s) (Rect q' k) = None
        \<and> on_click lc data (p, s) BackToPrimary = Some (Some q, None)
        \<and> (q \<in> primaryType ` set (baseSortedCountsArray lc data)
             \<longrightarrow> level_of lc data (Some q, None) = PrimaryFiltered q))
   \<and> (level_of lc data (p, s) \<noteq> Overview
    \<longrightarrow> on_click lc data (p, s) ShowAllTypes = Some (None, None))
   \<and> level_of lc data (None, None) = Overview"
proof (intro conjI impI)
  assume a: "level_of lc data (p, s) = Overview
      \<and> (q, k) \<in> set (rects lc data (createStackedBarChart lc data p s)) \<and> truthy (Some q)"
  then show "on_click lc data (p, s) (Rect q k) = Some (Some q, None)"
    by (intro from_overview(1)) simp_all
  from a show "level_of lc data (Some q, None) = PrimaryFiltered q"
    by (intro from_overview(2) [of lc data p s q k]) simp_all
next
  assume a: "level_of lc data (p, s) = PrimaryFiltered q
      \<and> (q', k) \<in> set (rects lc data (createStackedBarChart lc data p s)) \<and> k \<noteq> []"
  then show "q' = q"
    by (intro from_primary(1) [of lc data p s q q' k]) simp_all
  from a show "on_click lc data (p, s) (Rect q' k) = Some (Some q, Some (Str k))"
    by (intro from_primary(2)) simp_all
  from a show "level_of lc data (Some q, Some (Str k)) = DetailList q (Str k)"
    by (intro from_primary(3) [of lc data p s q q' k]) simp_all
next
  assume a: "level_of lc data (p, s) = DetailList q r"
  then show "on_click lc data (p, s) (Rect q' k) = None"
    by (rule from_detail(2))
  from a show "on_click lc data (p, s) BackToPrimary = Some (Some q, None)"
    by (rule from_detail(3))
  assume "q \<in> primaryType ` set (baseSortedCountsArray lc data)"
  with a show "level_of lc data (Some q, None) = PrimaryFiltered q"
    by (rule from_detail(4))
next
  assume "level_of lc data (p, s) \<noteq> Overview"
  then have "truthy p" by (rule show_all(3))
  then show "on_click lc data (p, s) ShowAllTypes = Some (None, None)"
    by (simp add: show_all(1))
next
  show "level_of lc data (None, None) = Overview" by (rule show_all(2))
qed

lemma example_Fire_present:
  "Str ''Fire'' \<in> primaryType ` set (baseSortedCountsArray flat_collation example_data)"
  using example_primaryTypes by (simp flip: set_map)

lemma example_Fire_primary:
  shows "level_of flat_collation example_data (Some (Str ''Fire''), None) = PrimaryFiltered (Str ''Fire'')"
  and "(Str ''Fire'', ''Flying'') \<in> set (rects flat_collation example_data
         (createStackedBarChart flat_collation example_data (Some (Str ''Fire'')) None))"
proof -
  from find_primary_Some [OF example_Fire_present] obtain f
    where f: "find (\<lambda>d. Some (primaryType d) = Some (Str ''Fire''))
                (baseSortedCountsArray flat_collation example_data) = Some f"
      and pf: "primaryType f = Str ''Fire''" by blast
  show "level_of flat_collation example_data (Some (Str ''Fire''), None) = PrimaryFiltered (Str ''Fire'')"
    by (rule level_primary [OF _ _ f]) simp_all
  have "body (createStackedBarChart flat_collation example_data (Some (Str ''Fire'')) None) = StackedBars [f]"
    by (subst chart_primary [OF _ _ f]) simp_all
  from rects_stacked [OF this]
  show "(Str ''Fire'', ''Flying'') \<in> set (rects flat_collation example_data
         (createStackedBarChart flat_collation example_data (Some (Str ''Fire'')) None))"
    by (simp add: example_allSecondaryTypes pf)
qed

lemma drill_down_transitions_example:
  "level_of flat_collation example_data (None, None) = Overview
   \<and> on_click flat_collation example_data (None, None) (Rect (Str ''Fire'') ''Flying'')
       = Some (Some (Str ''Fire''), None)
   \<and> level_of flat_collation example_data (Some (Str ''Fire''), None) = PrimaryFiltered (Str ''Fire'')
   \<and> on_click flat_collation example_data (Some (Str ''Fire''), None) (Rect (Str ''Fire'') ''Flying'')
       = Some (Some (Str ''Fire''), Some (Str ''Flying''))
   \<and> level_of flat_collation example_data (Some (Str ''Fire''), Some (Str ''Flying''))
       = DetailList (Str ''Fire'') (Str ''Flying'')
   \<and> on_click flat_collation example_data (Some (Str ''Fire''), Some (Str ''Flying'')) BackToPrimary
       = Some (Some (Str ''Fire''), None)
   \<and> on_click flat_collation example_data (Some (Str ''Fire''), Some (Str ''Flying'')) ShowAllTypes
       = Some (None, None)"
proof -
  have 1: "level_of flat_collation example_data (None, None) = Overview"
    by (simp add: level_overview_plain)
  have 2: "(Str ''Fire'', ''Flying'') \<in> set (rects flat_collation example_data
         (createStackedBarChart flat_collation example_data None None))"
    by (simp add: example_rects)
  have 3: "truthy (Some (Str ''Fire''))" and 4: "''Flying'' \<noteq> []" by simp_all
  note 5 = example_Fire_primary
  have 6: "level_of flat_collation example_data (Some (Str ''Fire''), Some (Str ''Flying''))
       = DetailList (Str ''Fire'') (Str ''Flying'')"
    by (simp add: level_Detail_iff)
  have 7: "DetailList (Str ''Fire'') (Str ''Flying'') \<noteq> Overview" by simp
  from 1 2 3 drill_down_transitions [of flat_collation example_data None None "Str ''Fire''" "''Flying''"]
  have a: "on_click flat_collation example_data (None, None) (Rect (Str ''Fire'') ''Flying'')
       = Some (Some (Str ''Fire''), None)" by simp
  from 4 5 drill_down_transitions [of flat_collation example_data "Some (Str ''Fire'')" None
      "Str ''Fire''" "''Flying''" "Str ''Fire''"]
  have b: "on_click flat_collation example_data (Some (Str ''Fire''), None) (Rect (Str ''Fire'') ''Flying'')
       = Some (Some (Str ''Fire''), Some (Str ''Flying''))" by simp
  from 6 7 drill_down_transitions [of flat_collation example_data "Some (Str ''Fire'')"
      "Some (Str ''Flying'')" "Str ''Fire''" "''Flying''" "Str ''Fire''" "Str ''Flying''"]
  have c: "on_click flat_collation example_data (Some (Str ''Fire''), Some (Str ''Flying'')) BackToPrimary
       = Some (Some (Str ''Fire''), None)"
    and d: "on_click flat_collation example_data (Some (Str ''Fire''), Some (Str ''Flying'')) ShowAllTypes
       = Some (None, None)" by simp_all
  from 1 a 5(1) b 6 c d show ?thesis by simp
qed

lemma blank_primaryTypes:
  "map primaryType (baseSortedCountsArray flat_collation blank_type_data) = [Str ''Fire'', Str []]"
  and blank_allSecondaryTypes: "allSecondaryTypes flat_collation blank_type_data = [''None'']"
  by (simp_all add: blank_type_data_def agg_defs total_of_def)

text \<open>
  Claim C3 at a dataset with a row whose primary type is the empty string. The page
  is the overview and shows a rectangle of that primary type; the click on it calls
  the chart with \<open>""\<close> as the primary filter, as the handler does to drill down to the
  primary type; the truthiness tests of the chart treat \<open>""\<close> as no filter, so the
  page drawn is the overview again and not the page filtered by that primary type.
\<close>

theorem blank_primary_key_returns_to_overview:
  "level_of flat_collation blank_type_data (None, None) = Overview
   \<and> (Str [], ''None'') \<in> set (rects flat_collation blank_type_data
         (createStackedBarChart flat_collation blank_type_data None None))
   \<and> on_click flat_collation blank_type_data (None, None) (Rect (Str []) ''None'')
       = Some (Some (Str []), None)
   \<and> level_of flat_collation blank_type_data (Some (Str []), None) = Overview
   \<and> level_of flat_collation blank_type_data (Some (Str []), None) \<noteq> PrimaryFiltered (Str [])"
proof -
  have ne: "blank_type_data \<noteq> []" by (simp add: blank_type_data_def)
  then have "body (createStackedBarChart flat_collation blank_type_data None None)
       = StackedBars (baseSortedCountsArray flat_collation blank_type_data)"
    by (simp add: chart_overview)
  from rects_stacked [OF this]
  have r: "(Str [], ''None'') \<in> set (rects flat_collation blank_type_data
         (createStackedBarChart flat_collation blank_type_data None None))"
    using blank_primaryTypes by (simp add: blank_allSecondaryTypes flip: set_map)
  have e: "effectiveFilterPrimaryType (createStackedBarChart flat_collation blank_type_data None None) = None"
    by (simp add: chart_overview)
  have c: "on_click flat_collation blank_type_data (None, None) (Rect (Str []) ''None'')
       = Some (Some (Str []), None)"
    using r by (simp add: on_click_def rect_click_def e)
  have l: "level_of flat_collation blank_type_data (Some (Str []), None) = Overview"
    by (simp add: level_overview_plain)
  show ?thesis
    using r c l by (simp add: level_overview_plain)
qed


text \<open>
  Claim C8, amended. A call with a truthy primary type that no aggregated group has
  and with no (truthy) secondary type draws the full list of groups, resets
  \<open>effectiveFilterPrimaryType\<close> to \<open>null\<close>, so that the page acts as the overview, and
  warns once. A call with a truthy primary type that no row has and with a truthy
  secondary type does not fall back: it draws the list view with the message that no
  row was found, keeps the requested filter and warns of nothing. No branch of the
  function throws.
\<close>

theorem absent_primary_key_recovery:
  "(truthy p \<and> \<not> truthy s
      \<and> find (\<lambda>d. Some (primaryType d) = p) (baseSortedCountsArray lc data) = None
    \<longrightarrow> createStackedBarChart lc data p s =
          \<lparr>showAllLink = True, backLink = False, warned = [p], effectiveFilterPrimaryType = None,
           body = (if data = [] then NoData else StackedBars (baseSortedCountsArray lc data))\<rparr>
        \<and> level_of lc data (p, s) = Overview)
   \<and> (truthy p \<and> truthy s \<and> (\<forall>x\<in>set data. Some (Str (Type_1 x)) \<noteq> p)
    \<longrightarrow> createStackedBarChart lc data p s =
          \<lparr>showAllLink = True, backLink = True, warned = [], effectiveFilterPrimaryType = p,
           body = NoPokemonFound\<rparr>)"
proof (intro conjI impI)
  assume a: "truthy p \<and> \<not> truthy s
      \<and> find (\<lambda>d. Some (primaryType d) = p) (baseSortedCountsArray lc data) = None"
  then show "createStackedBarChart lc data p s =
          \<lparr>showAllLink = True, backLink = False, warned = [p], effectiveFilterPrimaryType = None,
           body = (if data = [] then NoData else StackedBars (baseSortedCountsArray lc data))\<rparr>"
    by (intro chart_fallback) simp_all
  from a show "level_of lc data (p, s) = Overview"
    by (intro level_overview_fallback) simp_all
next
  assume a: "truthy p \<and> truthy s \<and> (\<forall>x\<in>set data. Some (Str (Type_1 x)) \<noteq> p)"
  then have "filter (\<lambda>x. Some (Str (Type_1 x)) = p \<and> Some (Str (Type_2 x)) = s) data = []"
    by (auto simp: filter_empty_conv)
  with a show "createStackedBarChart lc data p s =
          \<lparr>showAllLink = True, backLink = True, warned = [], effectiveFilterPrimaryType = p,
           body = NoPokemonFound\<rparr>"
    by (simp add: chart_detail)
qed

theorem absent_primary_key_recovery_witness:
  "truthy (Some (Str ''Dark'')) \<and> \<not> truthy None
   \<and> find (\<lambda>d. Some (primaryType d) = Some (Str ''Dark''))
        (baseSortedCountsArray flat_collation example_data) = None
   \<and> warned (createStackedBarChart flat_collation example_data (Some (Str ''Dark'')) None)
       = [Some (Str ''Dark'')]
   \<and> effectiveFilterPrimaryType (createStackedBarChart flat_collation example_data (Some (Str ''Dark'')) None)
       = None
   \<and> body (createStackedBarChart flat_collation example_data (Some (Str ''Dark'')) None)
       = StackedBars (baseSortedCountsArray flat_collation example_data)
   \<and> truthy (Some (Str ''Flying''))
   \<and> ''Dark'' \<notin> set (map Type_1 example_data)
   \<and> body (createStackedBarChart flat_collation example_data (Some (Str ''Dark'')) (Some (Str ''Flying'')))
       = NoPokemonFound"
proof -
  have 1: "truthy (Some (Str ''Dark''))" "\<not> truthy None" "truthy (Some (Str ''Flying''))"
    by simp_all
  have 2: "\<forall>x\<in>set example_data. Some (Str (Type_1 x)) \<noteq> Some (Str ''Dark'')"
    by (simp add: example_data_def row_def)
  have 3: "example_data \<noteq> []" by (simp add: example_data_def)
  from 1 example_find_Dark 3
    absent_primary_key_recovery [of "Some (Str ''Dark'')" None flat_collation example_data]
  have a: "createStackedBarChart flat_collation example_data (Some (Str ''Dark'')) None =
          \<lparr>showAllLink = True, backLink = False, warned = [Some (Str ''Dark'')],
           effectiveFilterPrimaryType = None,
           body = StackedBars (baseSortedCountsArray flat_collation example_data)\<rparr>"
    by simp
  from 1 2
    absent_primary_key_recovery [of "Some (Str ''Dark'')" "Some (Str ''Flying'')" flat_collation example_data]
  have b: "createStackedBarChart flat_collation example_data (Some (Str ''Dark'')) (Some (Str ''Flying'')) =
          \<lparr>showAllLink = True, backLink = True, warned = [],
           effectiveFilterPrimaryType = Some (Str ''Dark''), body = NoPokemonFound\<rparr>"
    by simp
  have 4: "''Dark'' \<notin> set (map Type_1 example_data)"
    by (simp add: example_data_def row_def)
  show ?thesis
    using 1 4 example_find_Dark by (simp add: a b)
qed

text \<open>
  The claim as stated fails when a secondary type is requested as well: the primary
  type \<open>Dark\<close> is absent from the aggregated data, yet there is no fallback, no
  warning and no reset.
\<close>

theorem absent_primary_with_secondary_counterexample:
  "find (\<lambda>d. Some (primaryType d) = Some (Str ''Dark''))
        (baseSortedCountsArray flat_collation example_data) = None
   \<and> createStackedBarChart flat_collation example_data (Some (Str ''Dark'')) (Some (Str ''Flying'')) =
       \<lparr>showAllLink = True, backLink = True, warned = [],
        effectiveFilterPrimaryType = Some (Str ''Dark''), body = NoPokemonFound\<rparr>
   \<and> level_of flat_collation example_data (Some (Str ''Dark''), Some (Str ''Flying''))
       = DetailList (Str ''Dark'') (Str ''Flying'')"
proof -
  have "filter (\<lambda>x. Some (Str (Type_1 x)) = Some (Str ''Dark'') \<and> Some (Str (Type_2 x)) = Some (Str ''Flying''))
          example_data = []"
    by (simp add: example_data_def row_def)
  then have "createStackedBarChart flat_collation example_data (Some (Str ''Dark'')) (Some (Str ''Flying'')) =
       \<lparr>showAllLink = True, backLink = True, warned = [],
        effectiveFilterPrimaryType = Some (Str ''Dark''), body = NoPokemonFound\<rparr>"
    by (simp add: chart_detail)
  then show ?thesis
    using example_find_Dark by (simp add: level_Detail_iff)
qed



lemma blank_secondary_aggregate:
  shows "map primaryType (baseSortedCountsArray flat_collation blank_secondary_data) = [Str ''Fire'']"
    and "allSecondaryTypes flat_collation blank_secondary_data = [[], ''Flying'']"
  by (simp_all add: blank_secondary_data_def agg_defs total_of_def)

text \<open>
  The same truthiness tests at a secondary type that is the empty string: on the page
  filtered by \<open>Fire\<close> the click on the rectangle of that layer calls the chart with
  \<open>""\<close> as the secondary filter, and the page drawn is the primary-filtered page again,
  not the list.
\<close>

lemma blank_secondary_key_stays_primary_filtered:
  "level_of flat_collation blank_secondary_data (Some (Str ''Fire''), None) = PrimaryFiltered (Str ''Fire'')
   \<and> (Str ''Fire'', []) \<in> set (rects flat_collation blank_secondary_data
         (createStackedBarChart flat_collation blank_secondary_data (Some (Str ''Fire'')) None))
   \<and> on_click flat_collation blank_secondary_data (Some (Str ''Fire''), None) (Rect (Str ''Fire'') [])
       = Some (Some (Str ''Fire''), Some (Str []))
   \<and> level_of flat_collation blank_secondary_data (Some (Str ''Fire''), Some (Str []))
       = PrimaryFiltered (Str ''Fire'')"
proof -
  let ?base = "baseSortedCountsArray flat_collation blank_secondary_data"
  have "Str ''Fire'' \<in> primaryType ` set ?base"
    using blank_secondary_aggregate(1) by (simp flip: set_map)
  from find_primary_Some [OF this] obtain f
    where f: "find (\<lambda>d. Some (primaryType d) = Some (Str ''Fire'')) ?base = Some f"
      and pf: "primaryType f = Str ''Fire''" by blast
  have c: "createStackedBarChart flat_collation blank_secondary_data (Some (Str ''Fire'')) s =
      \<lparr>showAllLink = True, backLink = False, warned = [],
       effectiveFilterPrimaryType = Some (Str ''Fire''), body = StackedBars [f]\<rparr>"
    if "\<not> truthy s" for s
    by (rule chart_primary [OF _ that f]) simp
  have l: "level_of flat_collation blank_secondary_data (Some (Str ''Fire''), s) = PrimaryFiltered (Str ''Fire'')"
    if "\<not> truthy s" for s
    by (rule level_primary [OF _ that f]) simp
  have r: "(Str ''Fire'', []) \<in> set (rects flat_collation blank_secondary_data
         (createStackedBarChart flat_collation blank_secondary_data (Some (Str ''Fire'')) None))"
    by (simp add: c rects_def blank_secondary_aggregate(2) pf)
  have k: "on_click flat_collation blank_secondary_data (Some (Str ''Fire''), None) (Rect (Str ''Fire'') [])
       = Some (Some (Str ''Fire''), Some (Str []))"
    using r by (simp add: on_click_def rect_click_def c)
  show ?thesis
    using r k by (simp add: l)
qed

lemma primaryType_named_aggregate:
  shows "map primaryType (baseSortedCountsArray flat_collation primaryType_named_data) = [Num 1, Num 0]"
    and "allSecondaryTypes flat_collation primaryType_named_data = [''None'', ''primaryType'']"
    and "map fst (sortedEntries flat_collation primaryType_named_data) = [''Fire'', ''Water'']"
  by (simp_all add: primaryType_named_data_def agg_defs total_of_def)

text \<open>
  With a secondary type named \<open>primaryType\<close> the spread overwrites the primary type of
  every flattened group by a count: the groups of \<open>Fire\<close> and \<open>Water\<close> carry 1 and 0.
  The click on a rectangle of the second group calls the chart with 0, which is the
  overview, and a call with \<open>Water\<close> finds no group and falls back with a warning.
\<close>

lemma primaryType_named_secondary_type_overwrites_key:
  "map fst (sortedEntries flat_collation primaryType_named_data) = [''Fire'', ''Water'']
   \<and> map primaryType (baseSortedCountsArray flat_collation primaryType_named_data) = [Num 1, Num 0]
   \<and> on_click flat_collation primaryType_named_data (None, None) (Rect (Num 0) ''None'')
       = Some (Some (Num 0), None)
   \<and> level_of flat_collation primaryType_named_data (Some (Num 0), None) = Overview
   \<and> level_of flat_collation primaryType_named_data (Some (Str ''Water''), None) = Overview
   \<and> warned (createStackedBarChart flat_collation primaryType_named_data (Some (Str ''Water'')) None)
       = [Some (Str ''Water'')]"
proof -
  let ?base = "baseSortedCountsArray flat_collation primaryType_named_data"
  have ne: "primaryType_named_data \<noteq> []" by (simp add: primaryType_named_data_def)
  then have "body (createStackedBarChart flat_collation primaryType_named_data None None) = StackedBars ?base"
    by (simp add: chart_overview)
  from rects_stacked [OF this]
  have r: "(Num 0, ''None'') \<in> set (rects flat_collation primaryType_named_data
         (createStackedBarChart flat_collation primaryType_named_data None None))"
    using primaryType_named_aggregate(1) by (simp add: primaryType_named_aggregate(2) flip: set_map)
  have k: "on_click flat_collation primaryType_named_data (None, None) (Rect (Num 0) ''None'')
       = Some (Some (Num 0), None)"
    using r by (simp add: on_click_def rect_click_def chart_overview)
  have w: "find (\<lambda>d. Some (primaryType d) = Some (Str ''Water'')) ?base = None"
    by (rule find_primary_None) (simp add: primaryType_named_aggregate(1))
  have f: "createStackedBarChart flat_collation primaryType_named_data (Some (Str ''Water'')) None =
      \<lparr>showAllLink = True, backLink = False, warned = [Some (Str ''Water'')],
       effectiveFilterPrimaryType = None, body = StackedBars ?base\<rparr>"
    using chart_fallback [OF _ _ w] ne by simp
  have l: "level_of flat_collation primaryType_named_data (Some (Str ''Water''), None) = Overview"
    by (rule level_overview_fallback [OF _ _ w]) simp_all
  show ?thesis
    using k l by (simp add: primaryType_named_aggregate f level_overview_plain)
qed

section \<open>Counts per secondary type\<close>


lemma js_insert_distinct: "distinct (js_insert cmp x ys) \<longleftrightarrow> x \<notin> set ys \<and> distinct ys"
  by (induction ys) (auto simp: js_insert_set)

lemma js_sort_distinct: "distinct (js_sort cmp xs) \<longleftrightarrow> distinct xs"
  by (induction xs) (simp_all add: js_sort_def js_insert_distinct js_sort_set [unfolded js_sort_def])

lemma allSecondaryTypes_distinct: "distinct (allSecondaryTypes lc data)"
  by (simp add: allSecondaryTypes_def js_sort_distinct js_set_of_distinct)

lemma group_add_members:
  "\<forall>g\<in>set gs. set (snd g) \<subseteq> A \<Longrightarrow> d \<in> A \<Longrightarrow> \<forall>g\<in>set (group_add k d gs). set (snd g) \<subseteq> A"
  by (induction k d gs rule: group_add.induct) auto

lemma d3_group_members_foldl:
  "\<forall>g\<in>set acc. set (snd g) \<subseteq> A \<Longrightarrow> set data \<subseteq> A \<Longrightarrow>
   \<forall>g\<in>set (foldl (\<lambda>gs d. group_add (keyof d) d gs) acc data). set (snd g) \<subseteq> A"
proof (induction data arbitrary: acc)
  case Nil
  then show ?case by simp
next
  case (Cons d data)
  from Cons.prems have "\<forall>g\<in>set (group_add (keyof d) d acc). set (snd g) \<subseteq> A"
    by (intro group_add_members) simp_all
  then show ?case
    unfolding foldl_Cons using Cons.prems(2) by (intro Cons.IH) simp_all
qed

lemma d3_group_members: "g \<in> set (d3_group data keyof) \<Longrightarrow> set (snd g) \<subseteq> set data"
  using d3_group_members_foldl [of "[]" "set data" data keyof] by (simp add: d3_group_def)

lemma counted_upd_other: "t \<notin> set S \<Longrightarrow> counted (c(t \<mapsto> n)) S = counted c S"
  by (induction S) (auto simp: counted_def)

lemma counted_upd_Suc:
  "distinct S \<Longrightarrow> t \<in> set S \<Longrightarrow> c t = Some n \<Longrightarrow> counted (c(t \<mapsto> n + 1)) S = Suc (counted c S)"
proof (induction S)
  case Nil
  then show ?case by simp
next
  case (Cons u S)
  show ?case
  proof (cases "u = t")
    case True
    with Cons.prems have "t \<notin> set S" by simp
    then have "counted (c(t \<mapsto> n + 1)) S = counted c S" by (rule counted_upd_other)
    with True Cons.prems(3) show ?thesis by (simp add: counted_def)
  next
    case False
    with Cons.prems have "counted (c(t \<mapsto> n + 1)) S = Suc (counted c S)"
      by (intro Cons.IH) simp_all
    with False show ?thesis by (simp add: counted_def)
  qed
qed

lemma fold_count_leaf:
  "distinct S \<Longrightarrow> dom c = set S \<Longrightarrow> Type_2 ` set leaves \<subseteq> set S \<Longrightarrow>
   counted (fold count_leaf leaves c) S = counted c S + length leaves"
proof (induction leaves arbitrary: c)
  case Nil
  then show ?case by simp
next
  case (Cons leaf leaves)
  from Cons.prems have "Type_2 leaf \<in> dom c" by simp
  then obtain n where n: "c (Type_2 leaf) = Some n" by blast
  then have cl: "count_leaf leaf c = c(Type_2 leaf \<mapsto> n + 1)" by (simp add: count_leaf_def)
  have "dom (count_leaf leaf c) = set S" using Cons.prems(2) n by (auto simp: cl)
  with Cons.prems have "counted (fold count_leaf leaves (count_leaf leaf c)) S
      = counted (count_leaf leaf c) S + length leaves"
    by (intro Cons.IH) simp_all
  moreover have "counted (count_leaf leaf c) S = Suc (counted c S)"
    unfolding cl using Cons.prems n by (intro counted_upd_Suc) simp_all
  ultimately show ?case by simp
qed

lemma counted_zero: "counted (map_of (map (\<lambda>secType. (secType, 0)) S)) S = 0"
proof -
  have "t \<in> set S \<Longrightarrow> map_of (map (\<lambda>secType. (secType, 0::nat)) S) t = Some 0" for t
    by (simp add: map_of_map_restrict restrict_map_def)
  then show ?thesis by (simp add: counted_def)
qed

lemma dom_zero: "dom (map_of (map (\<lambda>secType. (secType, 0::nat)) S)) = set S"
  by (auto simp: map_of_map_restrict restrict_map_def dom_def)

lemma reduce_leaves_counted:
  assumes "distinct S" "Type_2 ` set leaves \<subseteq> set S" "''total'' \<notin> set S"
  shows "counted (reduce_leaves S leaves) S = length leaves"
proof -
  let ?c0 = "map_of (map (\<lambda>secType. (secType, 0::nat)) S)"
  have "counted (fold count_leaf leaves ?c0) S = counted ?c0 S + length leaves"
    using assms(1,2) by (intro fold_count_leaf) (simp_all add: dom_zero)
  then show ?thesis
    using assms(3) by (simp add: reduce_leaves_def counted_upd_other counted_zero)
qed

text \<open>
  When no secondary type is the string \<open>total\<close>, the counts of every group over the
  secondary types add up to its total.
\<close>

lemma counts_sum_to_total_unless_named_total:
  assumes "''total'' \<notin> Type_2 ` set data" and "d \<in> set (baseSortedCountsArray lc data)"
  shows "sum_list (map (count_at d) (allSecondaryTypes lc data)) = group_total d"
proof -
  let ?S = "allSecondaryTypes lc data"
  from assms(2) obtain k leaves where g: "(k, leaves) \<in> set (d3_group data Type_1)"
    and d: "d = flatten (k, reduce_leaves ?S leaves)"
    by (auto simp: base_set countsByTypeFull_def)
  from d3_group_members [OF g] have "Type_2 ` set leaves \<subseteq> set ?S"
    by (auto simp: allSecondaryTypes_set)
  moreover have "''total'' \<notin> set ?S" using assms(1) by (simp add: allSecondaryTypes_set)
  ultimately have "counted (reduce_leaves ?S leaves) ?S = length leaves"
    by (intro reduce_leaves_counted allSecondaryTypes_distinct)
  moreover have "count_at d = (\<lambda>t. case reduce_leaves ?S leaves t of Some n \<Rightarrow> n | None \<Rightarrow> 0)"
    by (simp add: d count_at_def flatten_def fun_eq_iff)
  then have "sum_list (map (count_at d) ?S) = counted (reduce_leaves ?S leaves) ?S"
    by (simp only: counted_def)
  ultimately show ?thesis
    by (simp add: d group_total_flatten total_of_reduce_leaves)
qed

text \<open>
  Claim C10 at a dataset with the secondary type \<open>total\<close>: the assignment
  \<open>counts.total = leaves.length\<close> overwrites the count of that secondary type, so the
  group \<open>Fire\<close> with two rows shows the counts 2 (for \<open>total\<close>) and 1 (for
  \<open>Flying\<close>), which add up to 3, while its total is 2.
\<close>

theorem total_named_secondary_type_miscounts:
  "allSecondaryTypes flat_collation total_named_data = [''total'', ''Flying'']
   \<and> map (\<lambda>d. (primaryType d, count_at d ''total'', count_at d ''Flying'', group_total d))
        (baseSortedCountsArray flat_collation total_named_data) = [(Str ''Fire'', 2, 1, 2)]
   \<and> map (\<lambda>d. sum_list (map (count_at d) (allSecondaryTypes flat_collation total_named_data)))
        (baseSortedCountsArray flat_collation total_named_data) = [3]
   \<and> map group_total (baseSortedCountsArray flat_collation total_named_data) = [2]"
  by (simp add: total_named_data_def agg_defs total_of_def count_at_def group_total_def)

section \<open>Properties of the slider\<close>





section \<open>Properties of the selection in the parallel coordinates plot\<close>


lemma dataToPlot_checkboxes:
  "checkboxes st' = checkboxes st \<Longrightarrow> dataToPlot allValid st' = dataToPlot allValid st"
  by (simp add: dataToPlot_def selectedTypesArray_def)

lemma dataToPlot_subset: "set (dataToPlot allValid st) \<subseteq> set allValid"
  by (auto simp: dataToPlot_def)

lemma updatePlot_fields:
  "checkboxes (updatePlot roomy allValid st) = checkboxes st"
  "paths (updatePlot roomy allValid st) = (if roomy then dataToPlot allValid st else [])"
  "selectedPokemon (updatePlot roomy allValid st) =
     (case selectedPokemon st of
        Some sel \<Rightarrow> (case find (\<lambda>p. Name p = Name sel) (dataToPlot allValid st) of
                      None \<Rightarrow> None | Some _ \<Rightarrow> Some sel)
      | None \<Rightarrow> None)"
  by (simp_all add: updatePlot_def drawPcpChart_def Let_def split: option.splits)

lemma same_name_same_row:
  assumes "distinct (map Name allValid)" "p \<in> set allValid" "sel \<in> set allValid" "Name p = Name sel"
  shows "p = sel"
  using assms by (meson distinct_map inj_onD)

lemma updatePlot_clears:
  assumes "distinct (map Name allValid)" and "selectedPokemon st = Some sel" and "sel \<in> set allValid"
    and "Type_1 sel \<notin> set (selectedTypesArray st)"
  shows "selectedPokemon (updatePlot roomy allValid st) = None"
proof -
  have "find (\<lambda>p. Name p = Name sel) (dataToPlot allValid st) = None"
  proof (rule ccontr)
    assume "find (\<lambda>p. Name p = Name sel) (dataToPlot allValid st) \<noteq> None"
    then obtain p where p: "p \<in> set (dataToPlot allValid st)" "Name p = Name sel"
      by (auto simp: find_None_iff)
    then have "p \<in> set allValid" using dataToPlot_subset by blast
    from same_name_same_row [OF assms(1) this assms(3) p(2)] have "p = sel" .
    with p(1) assms(4) show False by (simp add: dataToPlot_def)
  qed
  then show ?thesis by (simp add: updatePlot_fields assms(2))
qed

lemma updatePlot_inv:
  assumes "distinct (map Name allValid)"
    and "\<And>sel. selectedPokemon st = Some sel \<Longrightarrow> sel \<in> set allValid"
  shows "pcp_inv allValid (updatePlot roomy allValid st)"
proof -
  let ?st' = "updatePlot roomy allValid st"
  have dp: "dataToPlot allValid ?st' = dataToPlot allValid st"
    by (rule dataToPlot_checkboxes) (simp add: updatePlot_fields)
  have "set (paths ?st') \<subseteq> set (dataToPlot allValid st)"
    by (auto simp: updatePlot_fields)
  moreover have "sel \<in> set (dataToPlot allValid st)" if s: "selectedPokemon ?st' = Some sel" for sel
  proof -
    from s have sel: "selectedPokemon st = Some sel"
      by (auto simp: updatePlot_fields split: option.splits)
    with s obtain p where "find (\<lambda>p. Name p = Name sel) (dataToPlot allValid st) = Some p"
      by (auto simp: updatePlot_fields split: option.splits)
    then have p: "p \<in> set (dataToPlot allValid st)" "Name p = Name sel"
      by (auto simp: find_Some_iff)
    then have "p \<in> set allValid" using dataToPlot_subset by blast
    from same_name_same_row [OF assms(1) this assms(2) [OF sel] p(2)] p(1) show ?thesis by simp
  qed
  ultimately show ?thesis
    by (simp add: pcp_inv_def dp split: option.splits)
qed

lemma pcp_inv_selected_valid:
  "pcp_inv allValid st \<Longrightarrow> selectedPokemon st = Some sel \<Longrightarrow> sel \<in> set allValid"
  using dataToPlot_subset [of allValid st] by (auto simp: pcp_inv_def)

lemma pcp_step_inv:
  assumes "distinct (map Name allValid)" and "pcp_inv allValid st"
  shows "pcp_inv allValid (pcp_step roomy allValid ev st)"
proof (cases ev)
  case (CheckboxChange t b)
  show ?thesis
    unfolding CheckboxChange pcp_step.simps
    by (rule updatePlot_inv [OF assms(1)]) (simp add: pcp_inv_selected_valid [OF assms(2)])
next
  case SelectAll
  show ?thesis
    unfolding SelectAll pcp_step.simps
    by (rule updatePlot_inv [OF assms(1)]) (simp add: pcp_inv_selected_valid [OF assms(2)])
next
  case DeselectAll
  show ?thesis
    unfolding DeselectAll pcp_step.simps
    by (rule updatePlot_inv [OF assms(1)]) (simp add: pcp_inv_selected_valid [OF assms(2)])
next
  case (PathClick d)
  have "dataToPlot allValid (st\<lparr>selectedPokemon := Some d, infoShown := True\<rparr>) = dataToPlot allValid st"
    by (rule dataToPlot_checkboxes) simp
  with assms(2) show ?thesis
    unfolding PathClick by (auto simp: pcp_inv_def)
next
  case CloseClick
  have "dataToPlot allValid (st\<lparr>selectedPokemon := None, infoShown := False\<rparr>) = dataToPlot allValid st"
    by (rule dataToPlot_checkboxes) simp
  with assms(2) show ?thesis
    unfolding CloseClick by (auto simp: pcp_inv_def)
qed

lemma pcp_init_inv: "pcp_inv allValid (pcp_init typeOrder roomy allValid)"
  by (auto simp: pcp_init_def pcp_inv_def updatePlot_def drawPcpChart_def Let_def dataToPlot_def
      selectedTypesArray_def)

text \<open>
  Claim C4. Row names are unique (they are the identity of a row and the key of the
  paths), and the state is one the plot can be in (\<open>pcp_inv\<close>, which holds initially
  and after every event). Then: whatever the checkboxes are replaced by, if the type
  of the selected row is not among the checked ones, \<open>updatePlot\<close> clears the
  selection in that same call; a click for a row outside the filtered working set
  changes nothing, since no path exists for it; and after every event the selected
  row, when there is one, lies in the filtered working set.
\<close>

theorem selection_consistent_with_filter:
  assumes "distinct (map Name allValid)" and "pcp_inv allValid st"
  shows "(\<forall>boxes sel. selectedPokemon st = Some sel
            \<and> Type_1 sel \<notin> set (selectedTypesArray (st\<lparr>checkboxes := boxes\<rparr>))
          \<longrightarrow> selectedPokemon (updatePlot roomy allValid (st\<lparr>checkboxes := boxes\<rparr>)) = None)
       \<and> (\<forall>d. d \<notin> set (dataToPlot allValid st) \<longrightarrow> pcp_step roomy allValid (PathClick d) st = st)
       \<and> pcp_inv allValid (pcp_step roomy allValid ev st)
       \<and> pcp_inv allValid (pcp_init typeOrder roomy allValid)"
proof (intro conjI allI impI)
  fix boxes sel
  assume a: "selectedPokemon st = Some sel
            \<and> Type_1 sel \<notin> set (selectedTypesArray (st\<lparr>checkboxes := boxes\<rparr>))"
  then have "sel \<in> set allValid" using pcp_inv_selected_valid [OF assms(2)] by blast
  with a show "selectedPokemon (updatePlot roomy allValid (st\<lparr>checkboxes := boxes\<rparr>)) = None"
    by (intro updatePlot_clears [OF assms(1), of _ sel]) simp_all
next
  fix d
  assume "d \<notin> set (dataToPlot allValid st)"
  with assms(2) have "d \<notin> set (paths st)" by (auto simp: pcp_inv_def)
  then show "pcp_step roomy allValid (PathClick d) st = st" by simp
next
  show "pcp_inv allValid (pcp_step roomy allValid ev st)"
    by (rule pcp_step_inv [OF assms])
next
  show "pcp_inv allValid (pcp_init typeOrder roomy allValid)"
    by (rule pcp_init_inv)
qed

lemma row_fields:
  "Name (row n t1 t2 tot) = n" "Type_1 (row n t1 t2 tot) = t1" "Type_2 (row n t1 t2 tot) = t2"
  "Total (row n t1 t2 tot) = tot"
  by (simp_all add: row_def)

lemma example_distinct_names: "distinct (map Name example_data)"
  by (simp add: example_data_def row_def)

lemma example_all_valid: "allValidPokemonData example_data = example_data"
  by (simp add: allValidPokemonData_def example_data_def row_def)

lemma example_pcp_inv: "pcp_inv example_data example_pcp"
  by (simp add: pcp_inv_def example_pcp_def dataToPlot_def selectedTypesArray_def
      example_data_def row_def)

theorem selection_consistent_with_filter_witness:
  "distinct (map Name example_data)
   \<and> pcp_inv example_data example_pcp
   \<and> selectedPokemon example_pcp = Some (row ''Charizard'' ''Fire'' ''Flying'' (Some 534))
   \<and> Type_1 (row ''Charizard'' ''Fire'' ''Flying'' (Some 534))
        \<notin> set (selectedTypesArray (example_pcp\<lparr>checkboxes := [(''Fire'', False), (''Water'', True)]\<rparr>))
   \<and> pcp_step True example_data (CheckboxChange ''Fire'' False) example_pcp
       = \<lparr>checkboxes = [(''Fire'', False), (''Water'', True)], selectedPokemon = None,
          infoShown = False, paths = [row ''Squirtle'' ''Water'' ''None'' (Some 314)]\<rparr>
   \<and> row ''Charmander'' ''Fire'' ''None'' (Some 309)
        \<notin> set (dataToPlot example_data
                 (pcp_step True example_data (CheckboxChange ''Fire'' False) example_pcp))
   \<and> pcp_step True example_data (PathClick (row ''Charmander'' ''Fire'' ''None'' (Some 309)))
         (pcp_step True example_data (CheckboxChange ''Fire'' False) example_pcp)
       = pcp_step True example_data (CheckboxChange ''Fire'' False) example_pcp"
proof -
  let ?zard = "row ''Charizard'' ''Fire'' ''Flying'' (Some 534)"
  let ?boxes = "[(''Fire'', False), (''Water'', True)]"
  let ?st' = "pcp_step True example_data (CheckboxChange ''Fire'' False) example_pcp"
  note main = selection_consistent_with_filter [OF example_distinct_names]
  have 1: "selectedPokemon example_pcp = Some ?zard" by (simp add: example_pcp_def)
  have 2: "Type_1 ?zard \<notin> set (selectedTypesArray (example_pcp\<lparr>checkboxes := ?boxes\<rparr>))"
    by (simp add: selectedTypesArray_def row_def)
  have step: "?st' = updatePlot True example_data (example_pcp\<lparr>checkboxes := ?boxes\<rparr>)"
    by (simp add: example_pcp_def)
  from main [OF example_pcp_inv, of True "CheckboxChange ''Fire'' False" id] 1 2
  have cleared: "selectedPokemon (updatePlot True example_data (example_pcp\<lparr>checkboxes := ?boxes\<rparr>)) = None"
    and inv': "pcp_inv example_data ?st'"
    by blast+
  have dp: "dataToPlot example_data st = [row ''Squirtle'' ''Water'' ''None'' (Some 314)]"
    if "checkboxes st = ?boxes" for st :: pcp
    using that by (simp add: dataToPlot_def selectedTypesArray_def example_data_def row_def)
  have st': "?st' = \<lparr>checkboxes = ?boxes, selectedPokemon = None, infoShown = False,
          paths = [row ''Squirtle'' ''Water'' ''None'' (Some 314)]\<rparr>"
    using cleared unfolding step
    by (simp add: updatePlot_def drawPcpChart_def Let_def dp example_pcp_def row_fields
        split: option.splits)
  have 3: "row ''Charmander'' ''Fire'' ''None'' (Some 309) \<notin> set (dataToPlot example_data ?st')"
    unfolding st' by (simp add: dp row_def)
  from main [OF inv', of True SelectAll id] 3
  have noop: "pcp_step True example_data (PathClick (row ''Charmander'' ''Fire'' ''None'' (Some 309))) ?st' = ?st'"
    by blast
  show ?thesis
    using example_distinct_names example_pcp_inv 1 2 st' 3 noop by simp
qed

end
